theory Spec2Isabelle
  imports Main "HOL-Library.Word"
begin

unbundle bit_operations_syntax

section \<open>Data model of \<^verbatim>\<open>discord/client.go\<close>\<close>

type_synonym byte = "8 word"

text \<open>
  A \<^verbatim>\<open>time.Time\<close> is used by the client only through \<^verbatim>\<open>UnixMilli()\<close>, which
  returns an \<^verbatim>\<open>int64\<close>: a 64-bit word read in two's complement (\<open>sint\<close>).
\<close>

type_synonym int64 = "64 word"
type_synonym uint64 = "64 word"
type_synonym uint32 = "32 word"

datatype Time = Instant (UnixMilli: int64)

record Timestamps =
  Start :: "Time option"
  End :: "Time option"

record Button =
  Label :: string
  Url :: string

text \<open>
  \<^verbatim>\<open>Timestamps *Timestamps\<close> and the elements of \<^verbatim>\<open>Buttons []*Button\<close> are
  pointers: \<open>None\<close> is \<^verbatim>\<open>nil\<close>.
\<close>

record Activity =
  Type :: int
  Details :: string
  State :: string
  LargeImage :: string
  LargeText :: string
  SmallImage :: string
  SmallText :: string
  Timestamps :: "Timestamps option"
  Buttons :: "Button option list"

subsection \<open>Internal payload structures\<close>

record payloadAssets =
  paLargeImage :: string
  paLargeText :: string
  paSmallImage :: string
  paSmallText :: string

record payloadTimestamps =
  ptStart :: "64 word option"
  ptEnd :: "64 word option"

record payloadButton =
  pbLabel :: string
  pbUrl :: string

record payloadActivity =
  pType :: int
  pDetails :: string
  pState :: string
  pAssets :: payloadAssets
  pTimestamps :: "payloadTimestamps option"
  pButtons :: "payloadButton list"

record args =
  Pid :: int
  ArgActivity :: "payloadActivity option"

record frame =
  Cmd :: string
  Args :: args
  Nonce :: string

record handshake =
  V :: string
  ClientId :: string

subsection \<open>The JSON documents \<^verbatim>\<open>json.Marshal\<close> builds from the struct tags\<close>

datatype json =
  JNull
  | JInt int
  | JStr string
  | JArr "json list"
  | JObj "(string \<times> json) list"

text \<open>
  A field tagged \<^verbatim>\<open>omitempty\<close> is left out when its value is empty: a string of
  length zero, a nil pointer, a slice of length zero. A struct value is never empty for
  \<^verbatim>\<open>encoding/json\<close>, so the tag changes nothing on a field of struct type.
\<close>

definition omitempty_string :: "string \<Rightarrow> string \<Rightarrow> (string \<times> json) list" where
  "omitempty_string key s = (if s = [] then [] else [(key, JStr s)])"

definition omitempty_uint64 :: "string \<Rightarrow> 64 word option \<Rightarrow> (string \<times> json) list" where
  "omitempty_uint64 key p = (case p of None \<Rightarrow> [] | Some v \<Rightarrow> [(key, JInt (uint v))])"

definition payloadAssets_json :: "payloadAssets \<Rightarrow> json" where
  "payloadAssets_json a = JObj
     (omitempty_string ''large_image'' (paLargeImage a) @
      omitempty_string ''large_text'' (paLargeText a) @
      omitempty_string ''small_image'' (paSmallImage a) @
      omitempty_string ''small_text'' (paSmallText a))"

definition payloadTimestamps_json :: "payloadTimestamps \<Rightarrow> json" where
  "payloadTimestamps_json t = JObj
     (omitempty_uint64 ''start'' (ptStart t) @ omitempty_uint64 ''end'' (ptEnd t))"

definition payloadButton_json :: "payloadButton \<Rightarrow> json" where
  "payloadButton_json b = JObj
     (omitempty_string ''label'' (pbLabel b) @ omitempty_string ''url'' (pbUrl b))"

definition payloadActivity_json :: "payloadActivity \<Rightarrow> json" where
  "payloadActivity_json p = JObj
     ([(''type'', JInt (pType p))] @
      omitempty_string ''details'' (pDetails p) @
      omitempty_string ''state'' (pState p) @
      [(''assets'', payloadAssets_json (pAssets p))] @
      (case pTimestamps p of None \<Rightarrow> []
       | Some t \<Rightarrow> [(''timestamps'', payloadTimestamps_json t)]) @
      (if pButtons p = [] then []
       else [(''buttons'', JArr (map payloadButton_json (pButtons p)))]))"

definition args_json :: "args \<Rightarrow> json" where
  "args_json a = JObj
     [(''pid'', JInt (Pid a)),
      (''activity'', (case ArgActivity a of None \<Rightarrow> JNull
                      | Some p \<Rightarrow> payloadActivity_json p))]"

definition frame_json :: "frame \<Rightarrow> json" where
  "frame_json f = JObj
     [(''cmd'', JStr (Cmd f)), (''args'', args_json (Args f)), (''nonce'', JStr (Nonce f))]"

definition handshake_json :: "handshake \<Rightarrow> json" where
  "handshake_json h = JObj [(''v'', JStr (V h)), (''client_id'', JStr (ClientId h))]"

text \<open>Reading a member of a JSON object; \<open>None\<close> when the key is absent.\<close>

fun member :: "string \<Rightarrow> json \<Rightarrow> json option" where
  "member key (JObj kvs) = map_of kvs key"
| "member key _ = None"

subsection \<open>Errors\<close>

datatype io_kind = EOF | ErrClosed | ErrBroken

text \<open>
  The client's errors: the one of \<^verbatim>\<open>openSocket\<close>, the two wrappers of \<^verbatim>\<open>Login\<close>,
  the one of \<^verbatim>\<open>SetActivity\<close>, whatever the connection returns, and a run-time panic
  (a nil pointer or an index out of range).
\<close>

datatype error =
  NotFound
  | ConnectError error
  | HandshakeError error
  | NotLoggedIn
  | IOError io_kind
  | Panic

subsection \<open>Mapping an Activity to its payload (\<^verbatim>\<open>SetActivity\<close>, lines 154 to 184)\<close>

text \<open>The conversion \<^verbatim>\<open>uint64(x)\<close> of an \<^verbatim>\<open>int64\<close>: the value modulo \<open>2 ^ 64\<close>.\<close>

definition uint64_of_int64 :: "int64 \<Rightarrow> uint64" where
  "uint64_of_int64 v = word_of_int (sint v)"

definition mapTimestamps :: "Timestamps \<Rightarrow> payloadTimestamps" where
  "mapTimestamps ts =
     \<lparr>ptStart = (case Start ts of None \<Rightarrow> None
                 | Some t \<Rightarrow> Some (uint64_of_int64 (UnixMilli t))),
      ptEnd = (case End ts of None \<Rightarrow> None
               | Some t \<Rightarrow> Some (uint64_of_int64 (UnixMilli t)))\<rparr>"

text \<open>
  The loop over \<^verbatim>\<open>activity.Buttons\<close> appends one payload button per element;
  reading \<^verbatim>\<open>btn.Label\<close> through a nil pointer panics.
\<close>

fun appendButtons :: "payloadButton list \<Rightarrow> Button option list \<Rightarrow> error + payloadButton list" where
  "appendButtons acc [] = Inr acc"
| "appendButtons acc (None # bs) = Inl Panic"
| "appendButtons acc (Some b # bs) =
     appendButtons (acc @ [\<lparr>pbLabel = Label b, pbUrl = Url b\<rparr>]) bs"

definition mapActivity :: "Activity \<Rightarrow> error + payloadActivity" where
  "mapActivity activity =
     (let pa = \<lparr>pType = Type activity,
                pDetails = Details activity,
                pState = State activity,
                pAssets = \<lparr>paLargeImage = LargeImage activity,
                            paLargeText = LargeText activity,
                            paSmallImage = SmallImage activity,
                            paSmallText = SmallText activity\<rparr>,
                pTimestamps = None,
                pButtons = []\<rparr>;
          pa = (case Timestamps activity of None \<Rightarrow> pa
                | Some ts \<Rightarrow> pa\<lparr>pTimestamps := Some (mapTimestamps ts)\<rparr>)
      in case appendButtons (pButtons pa) (Buttons activity) of
           Inl e \<Rightarrow> Inl e
         | Inr bs \<Rightarrow> Inr (pa\<lparr>pButtons := bs\<rparr>))"

text \<open>
  The activity object of the command frame: what \<^verbatim>\<open>SetActivity\<close> hands to
  \<^verbatim>\<open>json.Marshal\<close> under the key \<^verbatim>\<open>activity\<close>.
\<close>

definition activityPayload :: "Activity \<Rightarrow> error + json" where
  "activityPayload activity =
     (case mapActivity activity of
        Inl err \<Rightarrow> Inl err
      | Inr pa \<Rightarrow> Inr (payloadActivity_json pa))"

section \<open>The operating system as the client sees it\<close>

subsection \<open>A connection (\<^verbatim>\<open>net.Conn\<close>)\<close>

text \<open>
  What the peer does is a script: the segments in which its bytes become available to
  successive reads (or a read error), and how many more writes the connection takes
  before it breaks (\<open>None\<close>: any number). The end of the script is the peer having closed
  the stream. The connection logs what was written and counts the calls.
\<close>

datatype rd_event = Chunk "byte list" | RdFail io_kind

record net_Conn =
  inbound :: "rd_event list"
  wr_left :: "nat option"
  written :: "byte list list"
  n_write :: nat
  n_read :: nat
  closed :: bool

text \<open>
  One read of at most \<open>n > 0\<close> bytes takes what the first segment holds, up to \<open>n\<close>,
  and leaves the rest of that segment for the next read.
\<close>

fun deliver :: "nat \<Rightarrow> rd_event list \<Rightarrow> (io_kind + byte list) \<times> rd_event list" where
  "deliver n [] = (Inl EOF, [])"
| "deliver n (RdFail e # es) = (Inl e, es)"
| "deliver n (Chunk bs # es) =
     (if bs = [] then deliver n es
      else (Inr (take n bs), if drop n bs = [] then es else Chunk (drop n bs) # es))"

text \<open>
  \<^verbatim>\<open>conn.Read(b)\<close> fills a prefix of the buffer \<open>b\<close> and returns the buffer and the
  error; the count it also returns is dropped by every caller in this client. A read into
  an empty buffer returns at once.
\<close>

definition conn_Read :: "net_Conn \<Rightarrow> byte list \<Rightarrow> net_Conn \<times> byte list \<times> error option" where
  "conn_Read k0 b =
     (let k = k0\<lparr>n_read := n_read k0 + 1\<rparr> in
      if closed k then (k, b, Some (IOError ErrClosed))
      else if b = [] then (k, b, None)
      else case deliver (length b) (inbound k) of
             (Inl e, es) \<Rightarrow> (k\<lparr>inbound := es\<rparr>, b, Some (IOError e))
           | (Inr got, es) \<Rightarrow> (k\<lparr>inbound := es\<rparr>, got @ drop (length got) b, None))"

definition conn_Write :: "net_Conn \<Rightarrow> byte list \<Rightarrow> net_Conn \<times> error option" where
  "conn_Write k0 b =
     (let k = k0\<lparr>n_write := n_write k0 + 1\<rparr> in
      if closed k then (k, Some (IOError ErrClosed))
      else case wr_left k of
             None \<Rightarrow> (k\<lparr>written := written k @ [b]\<rparr>, None)
           | Some 0 \<Rightarrow> (k, Some (IOError ErrBroken))
           | Some (Suc n) \<Rightarrow> (k\<lparr>wr_left := Some n, written := written k @ [b]\<rparr>, None))"

definition conn_Close :: "net_Conn \<Rightarrow> net_Conn" where
  "conn_Close k = k\<lparr>closed := True\<rparr>"

subsection \<open>Environment, sockets, randomness\<close>

record peer =
  replies :: "rd_event list"
  accepts :: "nat option"

text \<open>
  \<open>getenv\<close> gives the empty string for an unset variable, as \<^verbatim>\<open>os.Getenv\<close> does.
  \<open>listening\<close> says at which paths a dial succeeds and what the peer there will do.
  \<open>dialed\<close> logs every dial attempt, \<open>released\<close> every connection closed and dropped,
  and \<open>rand_pos\<close> counts the bytes taken from the random source.
\<close>

record world =
  getenv :: "string \<Rightarrow> string"
  listening :: "string \<Rightarrow> peer option"
  getpid :: int
  rand_src :: "nat \<Rightarrow> byte"
  rand_pos :: nat
  dialed :: "string list"
  released :: "net_Conn list"

definition net_Dial :: "world \<Rightarrow> string \<Rightarrow> world \<times> (error + net_Conn)" where
  "net_Dial w path =
     (w\<lparr>dialed := dialed w @ [path]\<rparr>,
      case listening w path of
        None \<Rightarrow> Inl (IOError ErrBroken)
      | Some p \<Rightarrow> Inr \<lparr>inbound = replies p, wr_left = accepts p, written = [],
                       n_write = 0, n_read = 0, closed = False\<rparr>)"

definition rand_Read :: "world \<Rightarrow> nat \<Rightarrow> world \<times> byte list" where
  "rand_Read w n =
     (w\<lparr>rand_pos := rand_pos w + n\<rparr>, map (rand_src w) [rand_pos w ..< rand_pos w + n])"

section \<open>Formatting\<close>

text \<open>The verb \<^verbatim>\<open>%d\<close> on a non-negative integer.\<close>

fun fmt_d :: "nat \<Rightarrow> string" where
  "fmt_d n =
     (if n < 10 then [''0123456789'' ! n]
      else fmt_d (n div 10) @ [''0123456789'' ! (n mod 10)])"

declare fmt_d.simps [simp del]

text \<open>\<^verbatim>\<open>fmt.Sprintf("%s/discord-ipc-%d", tmpDir, i)\<close>\<close>

definition ipc_path :: "string \<Rightarrow> nat \<Rightarrow> string" where
  "ipc_path tmpDir i = tmpDir @ ''/discord-ipc-'' @ fmt_d i"

text \<open>The verb \<^verbatim>\<open>%x\<close> on a byte slice: two lower-case hexadecimal digits per byte.\<close>

definition hex_digit :: "byte \<Rightarrow> char" where
  "hex_digit d = ''0123456789abcdef'' ! unat d"

definition fmt_x :: "byte list \<Rightarrow> string" where
  "fmt_x bs = concat (map (\<lambda>b. [hex_digit (drop_bit 4 b), hex_digit (b AND 0x0f)]) bs)"

section \<open>Socket Locator: \<^verbatim>\<open>openSocket\<close>\<close>

text \<open>The inner loop, over the slots \<open>i = 0, ..., 9\<close> of one directory.\<close>

fun dialSlots :: "world \<Rightarrow> string \<Rightarrow> nat list \<Rightarrow> world \<times> net_Conn option" where
  "dialSlots w tmpDir [] = (w, None)"
| "dialSlots w tmpDir (i # is) =
     (case net_Dial w (ipc_path tmpDir i) of
        (w', Inr conn) \<Rightarrow> (w', Some conn)
      | (w', Inl err) \<Rightarrow> dialSlots w' tmpDir is)"

text \<open>The outer loop, over the candidate directories; an empty one is skipped.\<close>

fun dialDirs :: "world \<Rightarrow> string list \<Rightarrow> world \<times> (error + net_Conn)" where
  "dialDirs w [] = (w, Inl NotFound)"
| "dialDirs w (tmpDir # ds) =
     (if tmpDir = [] then dialDirs w ds
      else case dialSlots w tmpDir [0..<10] of
             (w', Some conn) \<Rightarrow> (w', Inr conn)
           | (w', None) \<Rightarrow> dialDirs w' ds)"

definition tmpDirs :: "world \<Rightarrow> string list" where
  "tmpDirs w =
     [getenv w ''XDG_RUNTIME_DIR'', getenv w ''TMPDIR'', getenv w ''TMP'', getenv w ''TEMP'',
      ''/tmp'']"

definition openSocket :: "world \<Rightarrow> world \<times> (error + net_Conn)" where
  "openSocket w = dialDirs w (tmpDirs w)"

section \<open>Framing Transport: \<^verbatim>\<open>send\<close> and \<^verbatim>\<open>receive\<close>\<close>

definition PutUint32 :: "uint32 \<Rightarrow> byte list" where
  "PutUint32 v = [ucast v, ucast (drop_bit 8 v), ucast (drop_bit 16 v), ucast (drop_bit 24 v)]"

text \<open>\<^verbatim>\<open>binary.LittleEndian.Uint32\<close> panics on a slice of fewer than four bytes.\<close>

fun Uint32 :: "byte list \<Rightarrow> uint32 option" where
  "Uint32 (b0 # b1 # b2 # b3 # bs) =
     Some (ucast b0 OR push_bit 8 (ucast b1) OR push_bit 16 (ucast b2) OR push_bit 24 (ucast b3))"
| "Uint32 bs = None"

record Client =
  clientID :: string
  conn :: "net_Conn option"
  logged :: bool

definition NewClient :: "string \<Rightarrow> Client" where
  "NewClient cid = \<lparr>clientID = cid, conn = None, logged = False\<rparr>"

text \<open>A method call on the nil interface \<^verbatim>\<open>c.conn\<close> panics.\<close>

definition send :: "Client \<Rightarrow> uint32 \<Rightarrow> byte list \<Rightarrow> Client \<times> error option" where
  "send c opcode payload =
     (let header = PutUint32 opcode @ PutUint32 (of_nat (length payload)) in
      case conn c of
        None \<Rightarrow> (c, Some Panic)
      | Some k \<Rightarrow>
          (case conn_Write k header of
             (k1, Some err) \<Rightarrow> (c\<lparr>conn := Some k1\<rparr>, Some err)
           | (k1, None) \<Rightarrow>
               (case conn_Write k1 payload of
                  (k2, Some err) \<Rightarrow> (c\<lparr>conn := Some k2\<rparr>, Some err)
                | (k2, None) \<Rightarrow> (c\<lparr>conn := Some k2\<rparr>, None))))"

definition receive :: "Client \<Rightarrow> Client \<times> (error + byte list)" where
  "receive c =
     (case conn c of
        None \<Rightarrow> (c, Inl Panic)
      | Some k \<Rightarrow>
          (case conn_Read k (replicate 8 0) of
             (k1, header, Some err) \<Rightarrow> (c\<lparr>conn := Some k1\<rparr>, Inl err)
           | (k1, header, None) \<Rightarrow>
               (case Uint32 (take 4 (drop 4 header)) of
                  None \<Rightarrow> (c\<lparr>conn := Some k1\<rparr>, Inl Panic)
                | Some len \<Rightarrow>
                    (case conn_Read k1 (replicate (unat len) 0) of
                       (k2, data, Some err) \<Rightarrow> (c\<lparr>conn := Some k2\<rparr>, Inl err)
                     | (k2, data, None) \<Rightarrow> (c\<lparr>conn := Some k2\<rparr>, Inr data)))))"

section \<open>Session: \<^verbatim>\<open>Login\<close>, \<^verbatim>\<open>Logout\<close>, \<^verbatim>\<open>SetActivity\<close>, \<^verbatim>\<open>ClearActivity\<close>\<close>

definition nonce :: "world \<Rightarrow> world \<times> string" where
  "nonce w =
     (case rand_Read w 16 of
        (w', buf0) \<Rightarrow>
          (let buf = buf0[6 := (buf0 ! 6 AND 0x0f) OR 0x40] in
           (w', fmt_x (take 4 buf) @ ''-'' @ fmt_x (take 2 (drop 4 buf)) @ ''-'' @
                fmt_x (take 2 (drop 6 buf)) @ ''-'' @ fmt_x (take 2 (drop 8 buf)) @ ''-'' @
                fmt_x (drop 10 buf))))"

text \<open>
  \<^verbatim>\<open>json.Marshal\<close> turns the document into bytes. The rendering is the standard
  library's and no step of the client looks into it, so it is the parameter \<open>enc\<close>; on
  these struct types it never fails.
\<close>

definition Login :: "(json \<Rightarrow> byte list) \<Rightarrow> world \<Rightarrow> Client \<Rightarrow> world \<times> Client \<times> error option" where
  "Login enc w c =
     (if logged c then (w, c, None)
      else case openSocket w of
             (w1, Inl err) \<Rightarrow> (w1, c, Some (ConnectError err))
           | (w1, Inr k) \<Rightarrow>
               (let c1 = c\<lparr>conn := Some k\<rparr>;
                    payload = enc (handshake_json \<lparr>V = ''1'', ClientId = clientID c1\<rparr>)
                in case send c1 0 payload of
                     (c2, Some err) \<Rightarrow> (w1, c2, Some err)
                   | (c2, None) \<Rightarrow>
                       (case receive c2 of
                          (c3, Inl err) \<Rightarrow> (w1, c3, Some (HandshakeError err))
                        | (c3, Inr reply) \<Rightarrow> (w1, c3\<lparr>logged := True\<rparr>, None))))"

definition Logout :: "world \<Rightarrow> Client \<Rightarrow> world \<times> Client" where
  "Logout w c =
     (case conn c of
        None \<Rightarrow> (w, c\<lparr>logged := False\<rparr>)
      | Some k \<Rightarrow>
          (w\<lparr>released := released w @ [conn_Close k]\<rparr>, c\<lparr>conn := None, logged := False\<rparr>))"

definition SetActivity ::
  "(json \<Rightarrow> byte list) \<Rightarrow> world \<Rightarrow> Client \<Rightarrow> Activity \<Rightarrow> world \<times> Client \<times> error option" where
  "SetActivity enc w c activity =
     (if \<not> logged c then (w, c, Some NotLoggedIn)
      else case mapActivity activity of
             Inl err \<Rightarrow> (w, c, Some err)
           | Inr pa \<Rightarrow>
               (case nonce w of
                  (w1, n) \<Rightarrow>
                    (let payload = enc (frame_json
                           \<lparr>Cmd = ''SET_ACTIVITY'',
                            Args = \<lparr>Pid = getpid w, ArgActivity = Some pa\<rparr>,
                            Nonce = n\<rparr>)
                     in case send c 1 payload of (c1, r) \<Rightarrow> (w1, c1, r))))"

definition ClearActivity ::
  "(json \<Rightarrow> byte list) \<Rightarrow> world \<Rightarrow> Client \<Rightarrow> world \<times> Client \<times> error option" where
  "ClearActivity enc w c =
     (if \<not> logged c then (w, c, None)
      else case nonce w of
             (w1, n) \<Rightarrow>
               (let payload = enc (frame_json
                      \<lparr>Cmd = ''SET_ACTIVITY'',
                       Args = \<lparr>Pid = getpid w, ArgActivity = None\<rparr>,
                       Nonce = n\<rparr>)
                in case send c 1 payload of (c1, r) \<Rightarrow> (w1, c1, r)))"

section \<open>Concrete inputs used below\<close>

definition track_activity :: "Timestamps option \<Rightarrow> Activity" where
  "track_activity ts =
     \<lparr>Type = 2, Details = ''Song'', State = [], LargeImage = [], LargeText = [],
      SmallImage = [], SmallText = [], Timestamps = ts, Buttons = []\<rparr>"

text \<open>
  A stand-in for the encoder in the examples: the top-level string members of a document
  as their bytes, any other member as one byte holding the length of its key.
\<close>

definition enc_stub :: "json \<Rightarrow> byte list" where
  "enc_stub j =
     (case j of
        JObj kvs \<Rightarrow>
          concat (map (\<lambda>kv. case snd kv of
                               JStr s \<Rightarrow> map (\<lambda>ch. of_nat (of_char ch)) s
                             | _ \<Rightarrow> [of_nat (length (fst kv))]) kvs)
      | _ \<Rightarrow> [])"

definition quiet_world :: world where
  "quiet_world =
     \<lparr>getenv = (\<lambda>v. []), listening = (\<lambda>p. None), getpid = 4242,
      rand_src = (\<lambda>i. 0), rand_pos = 0, dialed = [], released = []\<rparr>"

text \<open>
  A fresh open endpoint whose peer delivers the given segments, and a session holding an
  endpoint.
\<close>

definition endpoint :: "rd_event list \<Rightarrow> net_Conn" where
  "endpoint evs =
     \<lparr>inbound = evs, wr_left = None, written = [], n_write = 0, n_read = 0, closed = False\<rparr>"

definition session_on :: "net_Conn \<Rightarrow> Client" where
  "session_on k = \<lparr>clientID = ''1234'', conn = Some k, logged = False\<rparr>"

text \<open>
  The order in which the locator is to probe, in the spec's words: the non-empty ones of
  the runtime-directory variable, the temp-directory variable and its alias, the fallback
  temp variable and \<^verbatim>\<open>/tmp\<close>, each with the slots 0 to 9 in order.
\<close>

definition spec_probe_order :: "world \<Rightarrow> string list" where
  "spec_probe_order w =
     concat (map (\<lambda>dir. map (ipc_path dir) [0..<10])
       (filter (\<lambda>dir. dir \<noteq> [])
          [getenv w ''XDG_RUNTIME_DIR'', getenv w ''TMPDIR'', getenv w ''TMP'',
           getenv w ''TEMP'', ''/tmp'']))"

definition unbound :: "world \<Rightarrow> string \<Rightarrow> bool" where
  "unbound w path = (listening w path = None)"

text \<open>The spec's locator scenario: no variable set, a listener only at slot 3 of \<^verbatim>\<open>/tmp\<close>.\<close>

definition slot3_world :: world where
  "slot3_world =
     \<lparr>getenv = (\<lambda>v. []),
      listening = (\<lambda>p. if p = ''/tmp/discord-ipc-3''
                        then Some \<lparr>replies = [Chunk [1, 0, 0, 0, 2, 0, 0, 0, 0x7b, 0x7d]],
                                   accepts = None\<rparr>
                        else None),
      getpid = 4242, rand_src = (\<lambda>i. of_nat (17 * i + 3)), rand_pos = 0, dialed = [],
      released = []\<rparr>"

text \<open>A peer that accepts the connection at slot 3 of \<^verbatim>\<open>/tmp\<close> and never replies.\<close>

definition silent_world :: world where
  "silent_world =
     \<lparr>getenv = (\<lambda>v. []),
      listening = (\<lambda>p. if p = ''/tmp/discord-ipc-3''
                        then Some \<lparr>replies = [], accepts = None\<rparr> else None),
      getpid = 4242, rand_src = (\<lambda>i. 0), rand_pos = 0, dialed = [], released = []\<rparr>"

text \<open>A peer that accepts the connection at slot 3 of \<^verbatim>\<open>/tmp\<close> and takes no write.\<close>

definition broken_world :: world where
  "broken_world =
     \<lparr>getenv = (\<lambda>v. []),
      listening = (\<lambda>p. if p = ''/tmp/discord-ipc-3''
                        then Some \<lparr>replies = [], accepts = Some 0\<rparr> else None),
      getpid = 4242, rand_src = (\<lambda>i. 0), rand_pos = 0, dialed = [], released = []\<rparr>"

section \<open>Activity Encoder\<close>

lemma uint64_of_int64_bits: "uint64_of_int64 v = v"
  by (simp add: uint64_of_int64_def)

lemma mapActivity_fields:
  assumes "mapActivity a = Inr pa"
  shows "pType pa = Type a" "pDetails pa = Details a" "pState pa = State a"
    "paLargeImage (pAssets pa) = LargeImage a" "paLargeText (pAssets pa) = LargeText a"
    "paSmallImage (pAssets pa) = SmallImage a" "paSmallText (pAssets pa) = SmallText a"
    "pTimestamps pa = map_option mapTimestamps (Timestamps a)"
  using assms by (auto simp: mapActivity_def Let_def split: sum.splits option.splits)

lemma member_details:
  "member ''details'' (payloadActivity_json pa) =
     (if pDetails pa = [] then None else Some (JStr (pDetails pa)))"
  by (simp add: payloadActivity_json_def omitempty_string_def split: option.splits)

lemma member_state:
  "member ''state'' (payloadActivity_json pa) =
     (if pState pa = [] then None else Some (JStr (pState pa)))"
  by (simp add: payloadActivity_json_def omitempty_string_def split: option.splits)

lemma member_assets:
  "member ''assets'' (payloadActivity_json pa) = Some (payloadAssets_json (pAssets pa))"
  by (simp add: payloadActivity_json_def omitempty_string_def)

lemma member_timestamps:
  "member ''timestamps'' (payloadActivity_json pa) =
     map_option payloadTimestamps_json (pTimestamps pa)"
  by (simp add: payloadActivity_json_def omitempty_string_def split: option.splits)

lemma member_asset_keys:
  "member ''large_image'' (payloadAssets_json a) =
     (if paLargeImage a = [] then None else Some (JStr (paLargeImage a)))"
  "member ''large_text'' (payloadAssets_json a) =
     (if paLargeText a = [] then None else Some (JStr (paLargeText a)))"
  "member ''small_image'' (payloadAssets_json a) =
     (if paSmallImage a = [] then None else Some (JStr (paSmallImage a)))"
  "member ''small_text'' (payloadAssets_json a) =
     (if paSmallText a = [] then None else Some (JStr (paSmallText a)))"
  by (simp_all add: payloadAssets_json_def omitempty_string_def)

text \<open>
  The string fields behave as the omission rule says: each of the six keys is present
  exactly when its field is non-empty, and carries the field.
\<close>

lemma string_keys_omitted_when_empty:
  assumes "mapActivity a = Inr pa"
  shows "member ''details'' (payloadActivity_json pa) =
           (if Details a = [] then None else Some (JStr (Details a)))"
    and "member ''state'' (payloadActivity_json pa) =
           (if State a = [] then None else Some (JStr (State a)))"
    and "member ''large_image'' (payloadAssets_json (pAssets pa)) =
           (if LargeImage a = [] then None else Some (JStr (LargeImage a)))"
    and "member ''large_text'' (payloadAssets_json (pAssets pa)) =
           (if LargeText a = [] then None else Some (JStr (LargeText a)))"
    and "member ''small_image'' (payloadAssets_json (pAssets pa)) =
           (if SmallImage a = [] then None else Some (JStr (SmallImage a)))"
    and "member ''small_text'' (payloadAssets_json (pAssets pa)) =
           (if SmallText a = [] then None else Some (JStr (SmallText a)))"
  by (simp_all add: member_details member_state member_asset_keys mapActivity_fields [OF assms])

text \<open>
  Claim C1. The payload is to hold the six string keys exactly for the non-empty fields,
  and no \<^verbatim>\<open>assets\<close> object at all when the four image and text fields are empty.
  The code sends an empty \<^verbatim>\<open>assets\<close> object there: for an activity with only
  \<^verbatim>\<open>Type\<close> and \<^verbatim>\<open>Details\<close> set, the payload is
  \<^verbatim>\<open>{"type":2,"details":"Song","assets":{}}\<close>.
\<close>

theorem assets_object_sent_empty:
  "activityPayload (track_activity None) =
     Inr (JObj [(''type'', JInt 2), (''details'', JStr ''Song''), (''assets'', JObj [])])"
  by (simp add: activityPayload_def track_activity_def mapActivity_def payloadActivity_json_def
      payloadAssets_json_def omitempty_string_def)

text \<open>
  Claim C2, as the code has it. The \<^verbatim>\<open>timestamps\<close> key is absent exactly when the
  activity's \<^verbatim>\<open>Timestamps\<close> pointer is nil. When the pointer is set, the key is present
  and its object holds \<^verbatim>\<open>start\<close> and \<^verbatim>\<open>end\<close> exactly for the instants that are
  set, each as the instant's milliseconds since the epoch converted to an unsigned 64-bit
  integer; an end-only description gives an object with \<^verbatim>\<open>end\<close> alone, a start-only one
  an object with \<^verbatim>\<open>start\<close> alone, and one with neither instant an empty object.
\<close>

theorem timestamps_payload:
  assumes "activityPayload a = Inr j"
  shows "member ''timestamps'' j =
     (case Timestamps a of
        None \<Rightarrow> None
      | Some ts \<Rightarrow> Some (JObj
          ((case Start ts of None \<Rightarrow> []
            | Some t \<Rightarrow> [(''start'', JInt (uint (uint64_of_int64 (UnixMilli t))))]) @
           (case End ts of None \<Rightarrow> []
            | Some t \<Rightarrow> [(''end'', JInt (uint (uint64_of_int64 (UnixMilli t))))]))))"
proof -
  from assms obtain pa where pa: "mapActivity a = Inr pa" and j: "j = payloadActivity_json pa"
    by (auto simp: activityPayload_def split: sum.splits)
  show ?thesis
    unfolding j member_timestamps mapActivity_fields(8) [OF pa]
    by (simp add: payloadTimestamps_json_def mapTimestamps_def omitempty_uint64_def
        split: option.splits)
qed

theorem timestamps_payload_witness:
  "activityPayload (track_activity (Some \<lparr>Start = None, End = Some (Instant 1700000000000)\<rparr>)) =
     Inr (JObj [(''type'', JInt 2), (''details'', JStr ''Song''), (''assets'', JObj []),
                (''timestamps'', JObj [(''end'', JInt 1700000000000)])]) \<and>
   member ''timestamps''
     (JObj [(''type'', JInt 2), (''details'', JStr ''Song''), (''assets'', JObj []),
            (''timestamps'', JObj [(''end'', JInt 1700000000000)])]) =
     Some (JObj [(''end'', JInt 1700000000000)])"
proof -
  have run: "activityPayload (track_activity (Some \<lparr>Start = None, End = Some (Instant 1700000000000)\<rparr>)) =
     Inr (JObj [(''type'', JInt 2), (''details'', JStr ''Song''), (''assets'', JObj []),
                (''timestamps'', JObj [(''end'', JInt 1700000000000)])])"
    by (simp add: activityPayload_def track_activity_def mapActivity_def payloadActivity_json_def
        payloadAssets_json_def omitempty_string_def payloadTimestamps_json_def mapTimestamps_def
        omitempty_uint64_def uint64_of_int64_def)
  from timestamps_payload [OF run] run show ?thesis
    by (simp add: track_activity_def uint64_of_int64_def)
qed

theorem timestamps_key_without_instants:
  "activityPayload (track_activity (Some \<lparr>Start = None, End = None\<rparr>)) =
     Inr (JObj [(''type'', JInt 2), (''details'', JStr ''Song''), (''assets'', JObj []),
                (''timestamps'', JObj [])])"
  by (simp add: activityPayload_def track_activity_def mapActivity_def payloadActivity_json_def
      payloadAssets_json_def omitempty_string_def payloadTimestamps_json_def mapTimestamps_def
      omitempty_uint64_def)

section \<open>Session operations while disconnected\<close>

text \<open>
  Claim C5. While the session is not logged in, \<^verbatim>\<open>SetActivity\<close> returns the error
  "not logged in" and \<^verbatim>\<open>ClearActivity\<close> returns success; both leave the session, its
  connection (with its log of writes and its count of write calls) and the world as they
  were, so neither performs a socket write.
\<close>

theorem activity_ops_while_disconnected:
  assumes "\<not> logged c"
  shows "SetActivity enc w c activity = (w, c, Some NotLoggedIn) \<and>
         ClearActivity enc w c = (w, c, None)"
  using assms by (simp add: SetActivity_def ClearActivity_def)

theorem activity_ops_while_disconnected_witness:
  "\<not> logged (NewClient ''1234'') \<and>
   SetActivity enc_stub quiet_world (NewClient ''1234'') (track_activity None) =
     (quiet_world, NewClient ''1234'', Some NotLoggedIn) \<and>
   ClearActivity enc_stub quiet_world (NewClient ''1234'') = (quiet_world, NewClient ''1234'', None)"
  using activity_ops_while_disconnected [of "NewClient ''1234''" enc_stub quiet_world "track_activity None"]
  by (simp add: NewClient_def)

section \<open>The command frame of \<^verbatim>\<open>SetActivity\<close>\<close>

text \<open>
  On a logged-in session \<^verbatim>\<open>SetActivity\<close> sends, with opcode 1, the encoding of a frame
  whose \<^verbatim>\<open>args.activity\<close> is the activity object above; when the mapping panics,
  nothing is sent.
\<close>

lemma SetActivity_sends_payload:
  assumes "logged c"
  shows "case activityPayload a of
           Inl err \<Rightarrow> SetActivity enc w c a = (w, c, Some err)
         | Inr j \<Rightarrow> (\<exists>f. SetActivity enc w c a = (fst (nonce w), send c 1 (enc (frame_json f))) \<and>
               Cmd f = ''SET_ACTIVITY'' \<and> Pid (Args f) = getpid w \<and>
               member ''activity'' (args_json (Args f)) = Some j)"
proof (cases "mapActivity a")
  case (Inl e)
  then show ?thesis using assms by (simp add: activityPayload_def SetActivity_def)
next
  case (Inr pa)
  let ?f = "\<lparr>Cmd = ''SET_ACTIVITY'', Args = \<lparr>Pid = getpid w, ArgActivity = Some pa\<rparr>,
             Nonce = snd (nonce w)\<rparr>"
  have "SetActivity enc w c a = (fst (nonce w), send c 1 (enc (frame_json ?f)))"
    using assms Inr by (auto simp: SetActivity_def Let_def split: prod.splits)
  moreover have "member ''activity'' (args_json (Args ?f)) = Some (payloadActivity_json pa)"
    by (simp add: args_json_def)
  ultimately show ?thesis using Inr by (auto simp: activityPayload_def)
qed

section \<open>Framing Transport\<close>

lemma Uint32_PutUint32: "Uint32 (PutUint32 v) = Some v"
  unfolding PutUint32_def
  apply simp
  apply (rule bit_word_eqI)
  apply (auto simp: bit_simps not_less)
  subgoal for n by (cases "24 \<le> n") (simp_all add: not_le)
  done

lemma length_PutUint32: "length (PutUint32 v) = 4"
  by (simp add: PutUint32_def)



lemma conn_Read_header:
  assumes "\<not> closed k" "inbound k = Chunk (h @ p) # es" "length h = 8"
  shows "conn_Read k (replicate 8 0) =
     (k\<lparr>n_read := n_read k + 1, inbound := (if p = [] then es else Chunk p # es)\<rparr>, h, None)"
  using assms by (auto simp: conn_Read_def Let_def)

lemma conn_Read_payload:
  assumes "\<not> closed k" "inbound k = (if p = [] then es else Chunk p # es)"
  shows "conn_Read k (replicate (length p) 0) =
     (k\<lparr>n_read := n_read k + 1, inbound := es\<rparr>, p, None)"
  using assms by (auto simp: conn_Read_def Let_def)


lemma conn_Read_short:
  assumes "\<not> closed k" "inbound k = Chunk p1 # es" "p1 \<noteq> []" "length p1 \<le> n"
  shows "conn_Read k (replicate n 0) =
     (k\<lparr>n_read := n_read k + 1, inbound := es\<rparr>, p1 @ replicate (n - length p1) 0, None)"
proof -
  from assms(3,4) have "0 < n" by (cases p1) auto
  then show ?thesis using assms by (auto simp: conn_Read_def Let_def)
qed



lemma receive_split_payload:
  assumes "conn r = Some k" "\<not> closed k"
    and "p = p1 @ p2" "p1 \<noteq> []" "length p < 2 ^ 32"
    and "inbound k =
       Chunk (PutUint32 opcode @ PutUint32 (of_nat (length p)) @ p1) # Chunk p2 # es"
  shows "snd (receive r) = Inr (p1 @ replicate (length p2) 0)"
proof -
  let ?h = "PutUint32 opcode @ PutUint32 (of_nat (length p))"
  have h: "length ?h = 8" by (simp add: length_PutUint32)
  have len: "unat (of_nat (length p) :: uint32) = length p"
    using assms(5) by (simp add: unat_of_nat)
  let ?k1 = "k\<lparr>n_read := n_read k + 1, inbound := Chunk p1 # Chunk p2 # es\<rparr>"
  have rd1: "conn_Read k (replicate 8 0) = (?k1, ?h, None)"
    using conn_Read_header [OF assms(2) _ h, of p1 "Chunk p2 # es"] assms(4,6) by simp
  have dec: "Uint32 (take 4 (drop 4 ?h)) = Some (of_nat (length p))"
    by (simp add: length_PutUint32 Uint32_PutUint32)
  have rd2: "conn_Read ?k1 (replicate (length p) 0) =
      (?k1\<lparr>n_read := n_read ?k1 + 1, inbound := Chunk p2 # es\<rparr>,
       p1 @ replicate (length p - length p1) 0, None)"
    by (rule conn_Read_short) (use assms(2,3,4) in simp_all)
  have "snd (receive r) = Inr (p1 @ replicate (length p - length p1) 0)"
    unfolding receive_def using assms(1) by (simp only: option.case rd1 prod.case dec len rd2 snd_conv)
  then show ?thesis using assms(3) by simp
qed




text \<open>
  Claim C4. \<^verbatim>\<open>receive\<close> is to read exactly 8 header bytes and exactly the announced
  number of payload bytes, and to surface a short read as an error. The code calls
  \<^verbatim>\<open>Read\<close> once for each and drops the byte counts: when the two payload bytes of a
  frame arrive in two segments, it reads the first only, reports success and returns the
  buffer with the second byte still zero; the unread byte stays in the stream.
\<close>

theorem receive_short_read_unnoticed:
  "receive (session_on (endpoint [Chunk [1, 0, 0, 0, 2, 0, 0, 0], Chunk [0x61], Chunk [0x62]])) =
     (session_on ((endpoint [Chunk [0x62]])\<lparr>n_read := 2\<rparr>), Inr [0x61, 0])"
  by (simp add: receive_def conn_Read_def session_on_def endpoint_def Let_def)



text \<open>An error of either read is returned as it is, and no read is repeated.\<close>

lemma conn_Read_error: "snd (snd (conn_Read k b)) = Some e \<Longrightarrow> \<exists>kind. e = IOError kind"
  by (auto simp: conn_Read_def Let_def split: prod.splits sum.splits if_splits)

lemma deliver_length: "deliver n es = (Inr got, es') \<Longrightarrow> length got \<le> n"
  by (induction n es rule: deliver.induct) (auto split: if_splits)

lemma conn_Read_buffer: "length (fst (snd (conn_Read k b))) = length b"
proof (cases "deliver (length b) (inbound k)")
  case (Pair r es)
  then show ?thesis
    using deliver_length [of "length b" "inbound k" _ es]
    by (cases r) (auto simp: conn_Read_def Let_def)
qed

lemma Uint32_of_header: "length h = 8 \<Longrightarrow> \<exists>len. Uint32 (take 4 (drop 4 h)) = Some len"
proof -
  assume "length h = 8"
  then obtain a b c d e f g i where "h = [a, b, c, d, e, f, g, i]"
    by (auto simp: length_Suc_conv numeral_eq_Suc)
  then show ?thesis by simp
qed

lemma receive_error_not_retried:
  assumes "conn c = Some k" "receive c = (c', Inl err)"
  shows "\<exists>k' kind. conn c' = Some k' \<and> err = IOError kind \<and> n_read k' \<le> n_read k + 2 \<and>
           n_write k' = n_write k \<and> written k' = written k"
proof -
  obtain k1 h r1 where rd1: "conn_Read k (replicate 8 0) = (k1, h, r1)"
    by (cases "conn_Read k (replicate 8 0)") auto
  have k1: "n_read k1 = n_read k + 1" "n_write k1 = n_write k" "written k1 = written k"
    using rd1 by (auto simp: conn_Read_def Let_def split: if_splits prod.splits sum.splits)
  have h: "length h = 8" using conn_Read_buffer [of k "replicate 8 0"] rd1 by simp
  show ?thesis
  proof (cases r1)
    case (Some e)
    then have "err = e" "c' = c\<lparr>conn := Some k1\<rparr>"
      using assms rd1 by (auto simp: receive_def)
    moreover from Some rd1 obtain kind where "e = IOError kind"
      using conn_Read_error [of k "replicate 8 0" e] by auto
    ultimately show ?thesis using k1 by simp
  next
    case None
    from Uint32_of_header [OF h] obtain len where len: "Uint32 (take 4 (drop 4 h)) = Some len"
      by blast
    obtain k2 d r2 where rd2: "conn_Read k1 (replicate (unat len) 0) = (k2, d, r2)"
      by (cases "conn_Read k1 (replicate (unat len) 0)") auto
    have k2: "n_read k2 = n_read k1 + 1" "n_write k2 = n_write k1" "written k2 = written k1"
      using rd2 by (auto simp: conn_Read_def Let_def split: if_splits prod.splits sum.splits)
    from assms rd1 None len rd2 obtain e where e: "r2 = Some e" "err = e" "c' = c\<lparr>conn := Some k2\<rparr>"
      by (cases r2) (auto simp: receive_def)
    from e rd2 obtain kind where "e = IOError kind"
      using conn_Read_error [of k1 "replicate (unat len) 0" e] by auto
    then show ?thesis using e k1 k2 by simp
  qed
qed

section \<open>Socket Locator\<close>

lemma snd_net_Dial_log [simp]: "snd (net_Dial (w\<lparr>dialed := d\<rparr>) p) = snd (net_Dial w p)"
  by (simp add: net_Dial_def)

lemma unbound_log [simp]: "unbound (w\<lparr>dialed := d\<rparr>) = unbound w"
  by (simp add: unbound_def fun_eq_iff)

lemma net_Dial_unbound:
  "unbound w p \<Longrightarrow> net_Dial w p = (w\<lparr>dialed := dialed w @ [p]\<rparr>, Inl (IOError ErrBroken))"
  by (simp add: net_Dial_def unbound_def)

lemma net_Dial_bound:
  "\<not> unbound w p \<Longrightarrow> \<exists>k. net_Dial w p = (w\<lparr>dialed := dialed w @ [p]\<rparr>, Inr k) \<and> \<not> closed k"
  by (auto simp: net_Dial_def unbound_def)

lemma dropWhile_head: "dropWhile P xs = y # ys \<Longrightarrow> \<not> P y"
  by (metis hd_dropWhile list.distinct(1) list.sel(1))

lemma dialSlots_spec:
  "dialSlots w d ns =
     (w\<lparr>dialed := dialed w @ takeWhile (unbound w) (map (ipc_path d) ns) @
                  take 1 (dropWhile (unbound w) (map (ipc_path d) ns))\<rparr>,
      case dropWhile (unbound w) (map (ipc_path d) ns) of
        [] \<Rightarrow> None
      | p # _ \<Rightarrow> (case snd (net_Dial w p) of Inl e \<Rightarrow> None | Inr k \<Rightarrow> Some k))"
proof (induction ns arbitrary: w)
  case Nil
  then show ?case by simp
next
  case (Cons n ns)
  show ?case
  proof (cases "unbound w (ipc_path d n)")
    case True
    then show ?thesis by (simp add: net_Dial_unbound Cons.IH cong: list.case_cong)
  next
    case False
    from net_Dial_bound [OF False] obtain k
      where "net_Dial w (ipc_path d n) = (w\<lparr>dialed := dialed w @ [ipc_path d n]\<rparr>, Inr k)"
      by blast
    then show ?thesis using False by simp
  qed
qed

lemma dialDirs_spec:
  "dialDirs w ds =
     (w\<lparr>dialed := dialed w @
          takeWhile (unbound w) (concat (map (\<lambda>dir. map (ipc_path dir) [0..<10]) (filter (\<lambda>dir. dir \<noteq> []) ds))) @
          take 1 (dropWhile (unbound w) (concat (map (\<lambda>dir. map (ipc_path dir) [0..<10]) (filter (\<lambda>dir. dir \<noteq> []) ds))))\<rparr>,
      case dropWhile (unbound w) (concat (map (\<lambda>dir. map (ipc_path dir) [0..<10]) (filter (\<lambda>dir. dir \<noteq> []) ds))) of
        [] \<Rightarrow> Inl NotFound
      | p # _ \<Rightarrow> snd (net_Dial w p))"
proof (induction ds arbitrary: w)
  case Nil
  then show ?case by simp
next
  case (Cons d ds)
  note IH = Cons.IH
  let ?here = "map (ipc_path d) [0..<10]"
  show ?case
  proof (cases "d = []")
    case True
    then show ?thesis by (simp add: IH)
  next
    case nonempty: False
    show ?thesis
    proof (cases "dropWhile (unbound w) ?here")
      case Nil
      then have all: "\<forall>p \<in> set ?here. unbound w p" by (simp add: dropWhile_eq_Nil_conv)
      have tw: "takeWhile (unbound w) ?here = ?here" using all by (simp add: takeWhile_eq_all_conv)
      have "dialSlots w d [0..<10] = (w\<lparr>dialed := dialed w @ ?here\<rparr>, None)"
        unfolding dialSlots_spec tw Nil by simp
      then have step: "dialDirs w (d # ds) = dialDirs (w\<lparr>dialed := dialed w @ ?here\<rparr>) ds"
        using nonempty by simp
      have tw2: "takeWhile (unbound w) (?here @ rest) = ?here @ takeWhile (unbound w) rest" for rest
        by (rule takeWhile_append2) (use all in blast)
      have dw2: "dropWhile (unbound w) (?here @ rest) = dropWhile (unbound w) rest" for rest
        by (rule dropWhile_append2) (use all in blast)
      show ?thesis
        unfolding step IH using nonempty
        by (simp add: tw2 dw2 cong: list.case_cong)
    next
      case (Cons p ps)
      then have np: "\<not> unbound w p" by (rule dropWhile_head)
      from net_Dial_bound [OF np] obtain k where k: "snd (net_Dial w p) = Inr k"
        by force
      from Cons have ex: "\<exists>x \<in> set ?here. \<not> unbound w x"
        by (metis dropWhile_eq_Nil_conv list.distinct(1))
      have "dialSlots w d [0..<10] =
          (w\<lparr>dialed := dialed w @ takeWhile (unbound w) ?here @ [p]\<rparr>, Some k)"
        unfolding dialSlots_spec Cons using k by simp
      then have "dialDirs w (d # ds) =
          (w\<lparr>dialed := dialed w @ takeWhile (unbound w) ?here @ [p]\<rparr>, Inr k)"
        using nonempty by simp
      moreover obtain x where x: "x \<in> set ?here" "\<not> unbound w x" using ex by blast
      moreover have "takeWhile (unbound w) (?here @ rest) = takeWhile (unbound w) ?here" for rest
        using x by (rule takeWhile_append1)
      moreover have "dropWhile (unbound w) (?here @ rest) = dropWhile (unbound w) ?here @ rest" for rest
        using x by (rule dropWhile_append1)
      ultimately show ?thesis
        using nonempty Cons k by simp
    qed
  qed
qed

text \<open>
  Claim C6. \<^verbatim>\<open>openSocket\<close> dials the paths of the spec's probe order one after the
  other: every path before the first one that has a listener, then that path, and none
  after it. It returns the connection of that first successful dial, and the error "not
  found" exactly when no path of the whole order has a listener, in which case every path
  of the order was dialled.
\<close>

theorem openSocket_probe_order:
  "openSocket w =
     (w\<lparr>dialed := dialed w @ takeWhile (unbound w) (spec_probe_order w) @
                  take 1 (dropWhile (unbound w) (spec_probe_order w))\<rparr>,
      case dropWhile (unbound w) (spec_probe_order w) of
        [] \<Rightarrow> Inl NotFound
      | p # _ \<Rightarrow> snd (net_Dial w p))"
  unfolding openSocket_def tmpDirs_def spec_probe_order_def by (rule dialDirs_spec)

lemma upt10: "[0..<10] = [0, 1, 2, 3, 4, 5, 6, 7, 8, 9]"
  by (simp add: upt_rec)

theorem openSocket_probe_order_witness:
  "openSocket slot3_world =
     (slot3_world\<lparr>dialed := [''/tmp/discord-ipc-0'', ''/tmp/discord-ipc-1'',
                              ''/tmp/discord-ipc-2'', ''/tmp/discord-ipc-3'']\<rparr>,
      Inr (endpoint [Chunk [1, 0, 0, 0, 2, 0, 0, 0, 0x7b, 0x7d]]))"
proof -
  have order: "spec_probe_order slot3_world =
      [''/tmp/discord-ipc-0'', ''/tmp/discord-ipc-1'', ''/tmp/discord-ipc-2'',
       ''/tmp/discord-ipc-3'', ''/tmp/discord-ipc-4'', ''/tmp/discord-ipc-5'',
       ''/tmp/discord-ipc-6'', ''/tmp/discord-ipc-7'', ''/tmp/discord-ipc-8'',
       ''/tmp/discord-ipc-9'']"
    by (simp add: spec_probe_order_def slot3_world_def upt10 ipc_path_def fmt_d.simps)
  show ?thesis
    using openSocket_probe_order [of slot3_world] unfolding order
    by (simp add: unbound_def slot3_world_def net_Dial_def endpoint_def)
qed

text \<open>The same statement for use in the proofs about the session.\<close>

lemma openSocket_unfold:
  "openSocket w =
     (w\<lparr>dialed := dialed w @ takeWhile (unbound w) (spec_probe_order w) @
                  take 1 (dropWhile (unbound w) (spec_probe_order w))\<rparr>,
      case dropWhile (unbound w) (spec_probe_order w) of
        [] \<Rightarrow> Inl NotFound
      | p # _ \<Rightarrow> snd (net_Dial w p))"
  unfolding openSocket_def tmpDirs_def spec_probe_order_def by (rule dialDirs_spec)

section \<open>Session\<close>

lemma send_keeps_conn:
  "conn c = Some k \<Longrightarrow> \<exists>k'. conn (fst (send c op p)) = Some k' \<and> closed k' = closed k"
  by (auto simp: send_def Let_def conn_Write_def split: option.splits nat.splits prod.splits)

lemma send_keeps_logged: "logged (fst (send c op p)) = logged c"
  by (auto simp: send_def Let_def split: option.splits prod.splits)

lemma receive_keeps_conn:
  "conn c = Some k \<Longrightarrow> \<exists>k'. conn (fst (receive c)) = Some k' \<and> closed k' = closed k"
  by (auto simp: receive_def Let_def conn_Read_def split: option.splits prod.splits sum.splits)

lemma receive_keeps_logged: "logged (fst (receive c)) = logged c"
  by (auto simp: receive_def Let_def split: option.splits prod.splits sum.splits)

lemma send_error_kind: "snd (send c op p) = Some e \<Longrightarrow> e = Panic \<or> (\<exists>kind. e = IOError kind)"
  by (auto simp: send_def Let_def conn_Write_def split: option.splits nat.splits prod.splits if_splits)

lemma openSocket_conn_open: "snd (openSocket w) = Inr k \<Longrightarrow> \<not> closed k"
  by (auto simp: openSocket_unfold net_Dial_def split: list.splits option.splits)

lemma openSocket_error: "snd (openSocket w) = Inl e \<Longrightarrow> e = NotFound"
  using dropWhile_head [of "unbound w" "spec_probe_order w"]
  by (auto simp: openSocket_unfold net_Dial_def unbound_def split: list.splits option.splits)

lemma send_ok:
  assumes "send c op p = (c', None)" "conn c = Some k"
  shows "\<exists>k'. conn c' = Some k' \<and> n_write k' = n_write k + 2 \<and> n_read k' = n_read k \<and>
     written k' = written k @ [PutUint32 op @ PutUint32 (of_nat (length p)), p]"
  using assms
  by (auto simp: send_def Let_def conn_Write_def split: option.splits nat.splits prod.splits if_splits)

lemma receive_ok:
  assumes "receive c = (c', Inr d)" "conn c = Some k"
  shows "\<exists>k'. conn c' = Some k' \<and> n_read k' = n_read k + 2 \<and> n_write k' = n_write k \<and>
     written k' = written k"
  using assms
  by (auto simp: receive_def Let_def conn_Read_def split: option.splits prod.splits sum.splits if_splits)

lemma openSocket_fresh:
  assumes "openSocket w = (w1, Inr k)"
  shows "n_write k = 0 \<and> n_read k = 0 \<and> written k = [] \<and>
     (\<exists>p. \<not> unbound w p \<and>
        dialed w1 = dialed w @ takeWhile (unbound w) (spec_probe_order w) @ [p])"
proof (cases "dropWhile (unbound w) (spec_probe_order w)")
  case Nil
  from assms show ?thesis unfolding openSocket_unfold Nil by simp
next
  case (Cons p ps)
  then have "\<not> unbound w p" by (rule dropWhile_head)
  with assms show ?thesis unfolding openSocket_unfold Cons
    by (auto simp: net_Dial_def unbound_def)
qed


text \<open>Three runs of \<^verbatim>\<open>Login\<close> on a new session, evaluated.\<close>

lemma Login_slot3:
  "Login enc_stub slot3_world (NewClient ''1234'') =
     (slot3_world\<lparr>dialed := [''/tmp/discord-ipc-0'', ''/tmp/discord-ipc-1'',
                              ''/tmp/discord-ipc-2'', ''/tmp/discord-ipc-3'']\<rparr>,
      \<lparr>clientID = ''1234'',
       conn = Some \<lparr>inbound = [], wr_left = None,
                    written = [[0, 0, 0, 0, 5, 0, 0, 0], [49, 49, 50, 51, 52]],
                    n_write = 2, n_read = 2, closed = False\<rparr>,
       logged = True\<rparr>,
      None)"
  by (simp add: Login_def openSocket_def tmpDirs_def slot3_world_def upt10 ipc_path_def
      fmt_d.simps net_Dial_def NewClient_def send_def receive_def conn_Write_def conn_Read_def
      PutUint32_def enc_stub_def handshake_json_def Let_def)

lemma Login_silent:
  "Login enc_stub silent_world (NewClient ''1234'') =
     (silent_world\<lparr>dialed := [''/tmp/discord-ipc-0'', ''/tmp/discord-ipc-1'',
                               ''/tmp/discord-ipc-2'', ''/tmp/discord-ipc-3'']\<rparr>,
      \<lparr>clientID = ''1234'',
       conn = Some \<lparr>inbound = [], wr_left = None,
                    written = [[0, 0, 0, 0, 5, 0, 0, 0], [49, 49, 50, 51, 52]],
                    n_write = 2, n_read = 1, closed = False\<rparr>,
       logged = False\<rparr>,
      Some (HandshakeError (IOError EOF)))"
  by (simp add: Login_def openSocket_def tmpDirs_def silent_world_def upt10 ipc_path_def
      fmt_d.simps net_Dial_def NewClient_def send_def receive_def conn_Write_def conn_Read_def
      PutUint32_def enc_stub_def handshake_json_def Let_def)

lemma Login_quiet:
  "Login enc_stub quiet_world (NewClient ''1234'') =
     (quiet_world\<lparr>dialed := [''/tmp/discord-ipc-0'', ''/tmp/discord-ipc-1'',
        ''/tmp/discord-ipc-2'', ''/tmp/discord-ipc-3'', ''/tmp/discord-ipc-4'',
        ''/tmp/discord-ipc-5'', ''/tmp/discord-ipc-6'', ''/tmp/discord-ipc-7'',
        ''/tmp/discord-ipc-8'', ''/tmp/discord-ipc-9'']\<rparr>,
      NewClient ''1234'', Some (ConnectError NotFound))"
  by (simp add: Login_def openSocket_def tmpDirs_def quiet_world_def upt10 ipc_path_def
      fmt_d.simps net_Dial_def NewClient_def)

lemma send_failed:
  assumes "send c op p = (c2, Some e)" "conn c = Some k"
  shows "(\<exists>kind. e = IOError kind) \<and> logged c2 = logged c \<and>
     (\<exists>k2. c2 = c\<lparr>conn := Some k2\<rparr> \<and> closed k2 = closed k \<and> inbound k2 = inbound k \<and>
        n_read k2 = n_read k)"
  using assms
  by (auto simp: send_def Let_def conn_Write_def split: option.splits nat.splits prod.splits if_splits)

lemma send_succeeded:
  assumes "send c op p = (c2, None)" "conn c = Some k"
  shows "logged c2 = logged c \<and>
     (\<exists>k2. c2 = c\<lparr>conn := Some k2\<rparr> \<and> closed k2 = closed k \<and> inbound k2 = inbound k \<and>
        n_read k2 = n_read k \<and> n_write k2 = n_write k + 2 \<and>
        written k2 = written k @ [PutUint32 op @ PutUint32 (of_nat (length p)), p])"
  using assms
  by (auto simp: send_def Let_def conn_Write_def split: option.splits nat.splits prod.splits if_splits)

lemma receive_failed:
  assumes "receive c = (c3, Inl e)" "conn c = Some k"
  shows "logged c3 = logged c \<and>
     (\<exists>k3. c3 = c\<lparr>conn := Some k3\<rparr> \<and> closed k3 = closed k \<and> written k3 = written k \<and>
        n_write k3 = n_write k \<and> wr_left k3 = wr_left k)"
  using assms
  by (auto simp: receive_def Let_def conn_Read_def split: option.splits prod.splits sum.splits if_splits)

lemma Login_locate_failure:
  assumes "\<not> logged c" "openSocket w = (w1, Inl e)"
  shows "Login enc w c = (w1, c, Some (ConnectError NotFound))"
proof -
  have "e = NotFound" using assms(2) openSocket_error [of w e] by simp
  then show ?thesis using assms by (simp add: Login_def)
qed

lemma Login_send_failure:
  assumes "\<not> logged c" "openSocket w = (w1, Inr k)"
    and "send (c\<lparr>conn := Some k\<rparr>) 0 (enc (handshake_json \<lparr>V = ''1'', ClientId = clientID c\<rparr>)) =
       (c2, Some e)"
  shows "Login enc w c = (w1, c2, Some e) \<and> \<not> logged c2 \<and> (\<exists>kind. e = IOError kind) \<and>
     (\<exists>k2. c2 = c\<lparr>conn := Some k2\<rparr> \<and> \<not> closed k2 \<and> inbound k2 = inbound k \<and>
        n_read k2 = n_read k)"
proof -
  have op: "\<not> closed k" using assms(2) openSocket_conn_open [of w k] by simp
  have l: "Login enc w c = (w1, c2, Some e)" using assms by (simp add: Login_def Let_def)
  from send_failed [OF assms(3)] op assms(1) l show ?thesis by auto
qed

lemma Login_receive_failure:
  assumes "\<not> logged c" "openSocket w = (w1, Inr k)"
    and "send (c\<lparr>conn := Some k\<rparr>) 0 (enc (handshake_json \<lparr>V = ''1'', ClientId = clientID c\<rparr>)) =
       (c2, None)"
    and "receive c2 = (c3, Inl e)"
  shows "Login enc w c = (w1, c3, Some (HandshakeError e)) \<and> \<not> logged c3 \<and>
     (\<exists>k3. c3 = c\<lparr>conn := Some k3\<rparr> \<and> \<not> closed k3 \<and> n_write k3 = 2 \<and>
        written k3 = [PutUint32 0 @ PutUint32 (of_nat (length
              (enc (handshake_json \<lparr>V = ''1'', ClientId = clientID c\<rparr>)))),
            enc (handshake_json \<lparr>V = ''1'', ClientId = clientID c\<rparr>)])"
proof -
  let ?hs = "enc (handshake_json \<lparr>V = ''1'', ClientId = clientID c\<rparr>)"
  have op: "\<not> closed k" using assms(2) openSocket_conn_open [of w k] by simp
  from openSocket_fresh [OF assms(2)] have fresh: "n_write k = 0" "written k = []" by auto
  have l: "Login enc w c = (w1, c3, Some (HandshakeError e))"
    using assms by (simp add: Login_def Let_def)
  from send_succeeded [OF assms(3)] obtain k2 where k2: "c2 = c\<lparr>conn := Some k2\<rparr>" "\<not> closed k2"
      "n_write k2 = 2" "written k2 = [PutUint32 0 @ PutUint32 (of_nat (length ?hs)), ?hs]"
      "logged c2 = logged c"
    using op fresh by auto
  from receive_failed [OF assms(4), of k2] k2 obtain k3 where "c3 = c\<lparr>conn := Some k3\<rparr>"
      "\<not> closed k3" "n_write k3 = 2" "written k3 = [PutUint32 0 @ PutUint32 (of_nat (length ?hs)), ?hs]"
      "logged c3 = logged c"
    by auto
  then show ?thesis using l assms(1) by auto
qed

lemma Login_HandshakeError_cause:
  assumes "\<not> logged c" "Login enc w c = (w', c', Some (HandshakeError e))"
  shows "\<exists>k c2. openSocket w = (w', Inr k) \<and>
     send (c\<lparr>conn := Some k\<rparr>) 0 (enc (handshake_json \<lparr>V = ''1'', ClientId = clientID c\<rparr>)) =
       (c2, None) \<and>
     receive c2 = (c', Inl e)"
proof (cases "openSocket w")
  case (Pair w1 r)
  show ?thesis
  proof (cases r)
    case (Inl e0)
    then show ?thesis using assms Pair by (simp add: Login_def)
  next
    case (Inr k)
    let ?c1 = "c\<lparr>conn := Some k\<rparr>"
    let ?hs = "enc (handshake_json \<lparr>V = ''1'', ClientId = clientID c\<rparr>)"
    obtain c2 r2 where s: "send ?c1 0 ?hs = (c2, r2)" by (cases "send ?c1 0 ?hs")
    show ?thesis
    proof (cases r2)
      case (Some e2)
      then have "e2 = HandshakeError e" using assms Pair Inr s by (simp add: Login_def Let_def)
      moreover from send_failed [of ?c1 0 ?hs c2 e2 k] s Some have "\<exists>kind. e2 = IOError kind" by simp
      ultimately show ?thesis by auto
    next
      case None
      then show ?thesis using assms Pair Inr s
        by (auto simp: Login_def Let_def split: prod.splits sum.splits)
    qed
  qed
qed

lemma Login_failure_leaves_endpoint:
  assumes "\<not> logged c" "Login enc w c = (w', c', Some err)"
  shows "\<not> logged c' \<and>
      (case err of
         ConnectError e \<Rightarrow> e = NotFound \<and> c' = c
       | _ \<Rightarrow> (\<exists>k. conn c' = Some k \<and> \<not> closed k))"
  proof (cases "openSocket w")
  case (Pair w1 r)
  show ?thesis
  proof (cases r)
    case (Inl e)
    then have "e = NotFound" using Pair openSocket_error [of w e] by simp
    then show ?thesis using assms Pair Inl by (auto simp: Login_def)
  next
    case (Inr k)
    then have op: "\<not> closed k" using Pair openSocket_conn_open [of w k] by simp
    let ?c1 = "c\<lparr>conn := Some k\<rparr>"
    let ?p = "enc (handshake_json \<lparr>V = ''1'', ClientId = clientID ?c1\<rparr>)"
    obtain c2 r2 where s: "send ?c1 0 ?p = (c2, r2)" by (cases "send ?c1 0 ?p")
    from send_keeps_conn [of ?c1 k 0 ?p] s obtain k2 where k2: "conn c2 = Some k2" "\<not> closed k2"
      using op by auto
    have l2: "\<not> logged c2" using send_keeps_logged [of ?c1 0 ?p] s assms(1) by simp
    show ?thesis
    proof (cases r2)
      case (Some e2)
      then have "err = e2" "c' = c2" using assms Pair Inr s by (auto simp: Login_def Let_def)
      moreover have "e2 = Panic \<or> (\<exists>kind. e2 = IOError kind)"
        using send_error_kind [of ?c1 0 ?p e2] s Some by simp
      ultimately show ?thesis using k2 l2 by auto
    next
      case None
      obtain c3 r3 where r: "receive c2 = (c3, r3)" by (cases "receive c2")
      from receive_keeps_conn [OF k2(1)] r obtain k3 where k3: "conn c3 = Some k3" "\<not> closed k3"
        using k2(2) by auto
      have l3: "\<not> logged c3" using receive_keeps_logged [of c2] r l2 by simp
      from assms Pair Inr s None r obtain e3 where "r3 = Inl e3" "err = HandshakeError e3" "c' = c3"
        by (auto simp: Login_def Let_def split: sum.splits)
      then show ?thesis using k3 l3 by auto
    qed
  qed
qed

lemma openSocket_quiet:
  "openSocket quiet_world =
     (quiet_world\<lparr>dialed := [''/tmp/discord-ipc-0'', ''/tmp/discord-ipc-1'',
        ''/tmp/discord-ipc-2'', ''/tmp/discord-ipc-3'', ''/tmp/discord-ipc-4'',
        ''/tmp/discord-ipc-5'', ''/tmp/discord-ipc-6'', ''/tmp/discord-ipc-7'',
        ''/tmp/discord-ipc-8'', ''/tmp/discord-ipc-9'']\<rparr>, Inl NotFound)"
  by (simp add: openSocket_def tmpDirs_def quiet_world_def upt10 ipc_path_def fmt_d.simps
      net_Dial_def)

lemma openSocket_silent:
  "openSocket silent_world =
     (silent_world\<lparr>dialed := [''/tmp/discord-ipc-0'', ''/tmp/discord-ipc-1'',
                               ''/tmp/discord-ipc-2'', ''/tmp/discord-ipc-3'']\<rparr>,
      Inr (endpoint []))"
  by (simp add: openSocket_def tmpDirs_def silent_world_def upt10 ipc_path_def fmt_d.simps
      net_Dial_def endpoint_def)

lemma send_silent:
  "send (NewClient ''1234''\<lparr>conn := Some (endpoint [])\<rparr>) 0
        (enc_stub (handshake_json \<lparr>V = ''1'', ClientId = clientID (NewClient ''1234'')\<rparr>)) =
     (session_on ((endpoint [])\<lparr>n_write := 2,
        written := [[0, 0, 0, 0, 5, 0, 0, 0], [49, 49, 50, 51, 52]]\<rparr>), None)"
  by (simp add: send_def conn_Write_def NewClient_def session_on_def endpoint_def PutUint32_def
      enc_stub_def handshake_json_def Let_def)

lemma receive_silent:
  "receive (session_on ((endpoint [])\<lparr>n_write := 2,
        written := [[0, 0, 0, 0, 5, 0, 0, 0], [49, 49, 50, 51, 52]]\<rparr>)) =
     (session_on ((endpoint [])\<lparr>n_write := 2,
        written := [[0, 0, 0, 0, 5, 0, 0, 0], [49, 49, 50, 51, 52]], n_read := 1\<rparr>),
      Inl (IOError EOF))"
  by (simp add: receive_def conn_Read_def session_on_def endpoint_def Let_def)

lemma openSocket_broken:
  "openSocket broken_world =
     (broken_world\<lparr>dialed := [''/tmp/discord-ipc-0'', ''/tmp/discord-ipc-1'',
                               ''/tmp/discord-ipc-2'', ''/tmp/discord-ipc-3'']\<rparr>,
      Inr ((endpoint [])\<lparr>wr_left := Some 0\<rparr>))"
  by (simp add: openSocket_def tmpDirs_def broken_world_def upt10 ipc_path_def fmt_d.simps
      net_Dial_def endpoint_def)

lemma send_broken:
  "send (NewClient ''1234''\<lparr>conn := Some ((endpoint [])\<lparr>wr_left := Some 0\<rparr>)\<rparr>) 0
        (enc_stub (handshake_json \<lparr>V = ''1'', ClientId = clientID (NewClient ''1234'')\<rparr>)) =
     (session_on ((endpoint [])\<lparr>wr_left := Some 0, n_write := 1\<rparr>),
      Some (IOError ErrBroken))"
  by (simp add: send_def conn_Write_def NewClient_def session_on_def endpoint_def PutUint32_def
      enc_stub_def handshake_json_def Let_def)

text \<open>
  Claim C7, as the code has it. After \<^verbatim>\<open>Logout\<close> the session holds no endpoint and is
  not logged in, and the endpoint it held has been closed. A \<^verbatim>\<open>Login\<close> of a session
  that is not logged in fails in one of three ways, and in each the session stays not
  logged in. When the locator finds no socket, \<^verbatim>\<open>Login\<close> returns the connect error and
  the session is unchanged (it holds no endpoint if it held none before). When the
  handshake cannot be written, \<^verbatim>\<open>Login\<close> returns the write's I/O error as it is, and
  the session holds the endpoint just opened, still open and with nothing read from it.
  When the reply cannot be read, \<^verbatim>\<open>Login\<close> returns that error wrapped as the handshake
  error, and the session holds the endpoint just opened, still open, the one on which
  the handshake frame was written; the handshake error arises in no other way. No error
  path closes or drops the endpoint.
\<close>

theorem endpoint_after_Logout_and_failed_Login:
  "conn (snd (Logout w c)) = None \<and> \<not> logged (snd (Logout w c)) \<and>
   released (fst (Logout w c)) =
     released w @ (case conn c of None \<Rightarrow> [] | Some k \<Rightarrow> [k\<lparr>closed := True\<rparr>]) \<and>
   (\<not> logged c \<and> openSocket w = (w1, Inl e0) \<longrightarrow>
      Login enc w c = (w1, c, Some (ConnectError NotFound))) \<and>
   (\<not> logged c \<and> openSocket w = (w1, Inr k) \<and>
    send (c\<lparr>conn := Some k\<rparr>) 0
      (enc (handshake_json \<lparr>V = ''1'', ClientId = clientID c\<rparr>)) = (c2, Some e) \<longrightarrow>
      Login enc w c = (w1, c2, Some e) \<and> \<not> logged c2 \<and> (\<exists>kind. e = IOError kind) \<and>
      (\<exists>k2. c2 = c\<lparr>conn := Some k2\<rparr> \<and> \<not> closed k2 \<and> inbound k2 = inbound k \<and>
         n_read k2 = n_read k)) \<and>
   (\<not> logged c \<and> openSocket w = (w1, Inr k) \<and>
    send (c\<lparr>conn := Some k\<rparr>) 0
      (enc (handshake_json \<lparr>V = ''1'', ClientId = clientID c\<rparr>)) = (c2, None) \<and>
    receive c2 = (c3, Inl e) \<longrightarrow>
      Login enc w c = (w1, c3, Some (HandshakeError e)) \<and> \<not> logged c3 \<and>
      (\<exists>k3. c3 = c\<lparr>conn := Some k3\<rparr> \<and> \<not> closed k3 \<and> n_write k3 = 2 \<and>
         written k3 = [PutUint32 0 @ PutUint32 (of_nat (length
               (enc (handshake_json \<lparr>V = ''1'', ClientId = clientID c\<rparr>)))),
             enc (handshake_json \<lparr>V = ''1'', ClientId = clientID c\<rparr>)])) \<and>
   (\<not> logged c \<and> Login enc w c = (w', c', Some (HandshakeError e)) \<longrightarrow>
      (\<exists>k c2. openSocket w = (w', Inr k) \<and>
         send (c\<lparr>conn := Some k\<rparr>) 0
           (enc (handshake_json \<lparr>V = ''1'', ClientId = clientID c\<rparr>)) = (c2, None) \<and>
         receive c2 = (c', Inl e))) \<and>
   (\<not> logged c \<and> Login enc w c = (w', c', Some err) \<longrightarrow>
      \<not> logged c' \<and>
      (case err of
         ConnectError e \<Rightarrow> e = NotFound \<and> c' = c
       | _ \<Rightarrow> (\<exists>k. conn c' = Some k \<and> \<not> closed k)))"
proof -
  have lo: "conn (snd (Logout w c)) = None" "\<not> logged (snd (Logout w c))"
    "released (fst (Logout w c)) =
       released w @ (case conn c of None \<Rightarrow> [] | Some k \<Rightarrow> [k\<lparr>closed := True\<rparr>])"
    by (simp_all add: Logout_def conn_Close_def split: option.splits)
  show ?thesis
    using lo Login_locate_failure [of c w w1 e0 enc] Login_send_failure [of c w w1 k enc c2 e]
      Login_receive_failure [of c w w1 k enc c2 c3 e]
      Login_HandshakeError_cause [of c enc w w' c' e]
      Login_failure_leaves_endpoint [of c enc w w' c' err]
    by blast
qed

theorem endpoint_after_Logout_and_failed_Login_witness:
  "\<not> logged (NewClient ''1234'') \<and>
   openSocket quiet_world =
     (quiet_world\<lparr>dialed := [''/tmp/discord-ipc-0'', ''/tmp/discord-ipc-1'',
        ''/tmp/discord-ipc-2'', ''/tmp/discord-ipc-3'', ''/tmp/discord-ipc-4'',
        ''/tmp/discord-ipc-5'', ''/tmp/discord-ipc-6'', ''/tmp/discord-ipc-7'',
        ''/tmp/discord-ipc-8'', ''/tmp/discord-ipc-9'']\<rparr>, Inl NotFound) \<and>
   Login enc_stub quiet_world (NewClient ''1234'') =
     (quiet_world\<lparr>dialed := [''/tmp/discord-ipc-0'', ''/tmp/discord-ipc-1'',
        ''/tmp/discord-ipc-2'', ''/tmp/discord-ipc-3'', ''/tmp/discord-ipc-4'',
        ''/tmp/discord-ipc-5'', ''/tmp/discord-ipc-6'', ''/tmp/discord-ipc-7'',
        ''/tmp/discord-ipc-8'', ''/tmp/discord-ipc-9'']\<rparr>,
      NewClient ''1234'', Some (ConnectError NotFound)) \<and>
   openSocket silent_world =
     (silent_world\<lparr>dialed := [''/tmp/discord-ipc-0'', ''/tmp/discord-ipc-1'',
                               ''/tmp/discord-ipc-2'', ''/tmp/discord-ipc-3'']\<rparr>,
      Inr (endpoint [])) \<and>
   send (NewClient ''1234''\<lparr>conn := Some (endpoint [])\<rparr>) 0
        (enc_stub (handshake_json \<lparr>V = ''1'', ClientId = clientID (NewClient ''1234'')\<rparr>)) =
     (session_on ((endpoint [])\<lparr>n_write := 2,
        written := [[0, 0, 0, 0, 5, 0, 0, 0], [49, 49, 50, 51, 52]]\<rparr>), None) \<and>
   receive (session_on ((endpoint [])\<lparr>n_write := 2,
        written := [[0, 0, 0, 0, 5, 0, 0, 0], [49, 49, 50, 51, 52]]\<rparr>)) =
     (session_on ((endpoint [])\<lparr>n_write := 2,
        written := [[0, 0, 0, 0, 5, 0, 0, 0], [49, 49, 50, 51, 52]], n_read := 1\<rparr>),
      Inl (IOError EOF)) \<and>
   Login enc_stub silent_world (NewClient ''1234'') =
     (silent_world\<lparr>dialed := [''/tmp/discord-ipc-0'', ''/tmp/discord-ipc-1'',
                               ''/tmp/discord-ipc-2'', ''/tmp/discord-ipc-3'']\<rparr>,
      session_on ((endpoint [])\<lparr>n_write := 2,
        written := [[0, 0, 0, 0, 5, 0, 0, 0], [49, 49, 50, 51, 52]], n_read := 1\<rparr>),
      Some (HandshakeError (IOError EOF))) \<and>
   openSocket broken_world =
     (broken_world\<lparr>dialed := [''/tmp/discord-ipc-0'', ''/tmp/discord-ipc-1'',
                               ''/tmp/discord-ipc-2'', ''/tmp/discord-ipc-3'']\<rparr>,
      Inr ((endpoint [])\<lparr>wr_left := Some 0\<rparr>)) \<and>
   send (NewClient ''1234''\<lparr>conn := Some ((endpoint [])\<lparr>wr_left := Some 0\<rparr>)\<rparr>) 0
        (enc_stub (handshake_json \<lparr>V = ''1'', ClientId = clientID (NewClient ''1234'')\<rparr>)) =
     (session_on ((endpoint [])\<lparr>wr_left := Some 0, n_write := 1\<rparr>),
      Some (IOError ErrBroken)) \<and>
   Login enc_stub broken_world (NewClient ''1234'') =
     (broken_world\<lparr>dialed := [''/tmp/discord-ipc-0'', ''/tmp/discord-ipc-1'',
                               ''/tmp/discord-ipc-2'', ''/tmp/discord-ipc-3'']\<rparr>,
      session_on ((endpoint [])\<lparr>wr_left := Some 0, n_write := 1\<rparr>),
      Some (IOError ErrBroken)) \<and>
   conn (snd (Logout quiet_world (session_on (endpoint [])))) = None \<and>
   released (fst (Logout quiet_world (session_on (endpoint [])))) =
     [(endpoint [])\<lparr>closed := True\<rparr>]"
proof -
  have nl: "\<not> logged (NewClient ''1234'')" by (simp add: NewClient_def)
  from endpoint_after_Logout_and_failed_Login [where w = broken_world
      and c = "NewClient ''1234''" and enc = enc_stub
      and k = "(endpoint [])\<lparr>wr_left := Some 0\<rparr>"
      and ?w1.0 = "broken_world\<lparr>dialed := [''/tmp/discord-ipc-0'', ''/tmp/discord-ipc-1'',
                               ''/tmp/discord-ipc-2'', ''/tmp/discord-ipc-3'']\<rparr>"
      and ?c2.0 = "session_on ((endpoint [])\<lparr>wr_left := Some 0, n_write := 1\<rparr>)"
      and e = "IOError ErrBroken"] nl openSocket_broken send_broken
  have s: "Login enc_stub broken_world (NewClient ''1234'') =
     (broken_world\<lparr>dialed := [''/tmp/discord-ipc-0'', ''/tmp/discord-ipc-1'',
                               ''/tmp/discord-ipc-2'', ''/tmp/discord-ipc-3'']\<rparr>,
      session_on ((endpoint [])\<lparr>wr_left := Some 0, n_write := 1\<rparr>),
      Some (IOError ErrBroken))"
    by blast
  from endpoint_after_Logout_and_failed_Login [where w = quiet_world
      and c = "NewClient ''1234''" and enc = enc_stub and ?e0.0 = NotFound
      and ?w1.0 = "quiet_world\<lparr>dialed := [''/tmp/discord-ipc-0'', ''/tmp/discord-ipc-1'',
        ''/tmp/discord-ipc-2'', ''/tmp/discord-ipc-3'', ''/tmp/discord-ipc-4'',
        ''/tmp/discord-ipc-5'', ''/tmp/discord-ipc-6'', ''/tmp/discord-ipc-7'',
        ''/tmp/discord-ipc-8'', ''/tmp/discord-ipc-9'']\<rparr>"] nl openSocket_quiet
  have a: "Login enc_stub quiet_world (NewClient ''1234'') =
     (quiet_world\<lparr>dialed := [''/tmp/discord-ipc-0'', ''/tmp/discord-ipc-1'',
        ''/tmp/discord-ipc-2'', ''/tmp/discord-ipc-3'', ''/tmp/discord-ipc-4'',
        ''/tmp/discord-ipc-5'', ''/tmp/discord-ipc-6'', ''/tmp/discord-ipc-7'',
        ''/tmp/discord-ipc-8'', ''/tmp/discord-ipc-9'']\<rparr>,
      NewClient ''1234'', Some (ConnectError NotFound))"
    by blast
  from endpoint_after_Logout_and_failed_Login [where w = silent_world
      and c = "NewClient ''1234''" and enc = enc_stub and k = "endpoint []"
      and ?w1.0 = "silent_world\<lparr>dialed := [''/tmp/discord-ipc-0'', ''/tmp/discord-ipc-1'',
                               ''/tmp/discord-ipc-2'', ''/tmp/discord-ipc-3'']\<rparr>"
      and ?c2.0 = "session_on ((endpoint [])\<lparr>n_write := 2,
        written := [[0, 0, 0, 0, 5, 0, 0, 0], [49, 49, 50, 51, 52]]\<rparr>)"
      and ?c3.0 = "session_on ((endpoint [])\<lparr>n_write := 2,
        written := [[0, 0, 0, 0, 5, 0, 0, 0], [49, 49, 50, 51, 52]], n_read := 1\<rparr>)"
      and e = "IOError EOF" and err = "HandshakeError (IOError EOF)"
      and w' = "silent_world\<lparr>dialed := [''/tmp/discord-ipc-0'', ''/tmp/discord-ipc-1'',
                               ''/tmp/discord-ipc-2'', ''/tmp/discord-ipc-3'']\<rparr>"
      and c' = "session_on ((endpoint [])\<lparr>n_write := 2,
        written := [[0, 0, 0, 0, 5, 0, 0, 0], [49, 49, 50, 51, 52]], n_read := 1\<rparr>)"]
    nl openSocket_silent send_silent receive_silent
  have b: "Login enc_stub silent_world (NewClient ''1234'') =
     (silent_world\<lparr>dialed := [''/tmp/discord-ipc-0'', ''/tmp/discord-ipc-1'',
                               ''/tmp/discord-ipc-2'', ''/tmp/discord-ipc-3'']\<rparr>,
      session_on ((endpoint [])\<lparr>n_write := 2,
        written := [[0, 0, 0, 0, 5, 0, 0, 0], [49, 49, 50, 51, 52]], n_read := 1\<rparr>),
      Some (HandshakeError (IOError EOF)))"
    by blast
  from endpoint_after_Logout_and_failed_Login [where w = quiet_world
      and c = "session_on (endpoint [])"]
  have c: "conn (snd (Logout quiet_world (session_on (endpoint [])))) = None"
    "released (fst (Logout quiet_world (session_on (endpoint [])))) =
       [(endpoint [])\<lparr>closed := True\<rparr>]"
    by (simp_all add: session_on_def quiet_world_def)
  from nl openSocket_quiet a openSocket_silent send_silent receive_silent b
    openSocket_broken send_broken s c
  show ?thesis by simp
qed

text \<open>
  A peer that accepts the connection and never replies: \<^verbatim>\<open>Login\<close> fails with the
  handshake error, and the session is left holding the endpoint, open.
\<close>

theorem failed_handshake_keeps_endpoint:
  "Login enc_stub silent_world (NewClient ''1234'') =
     (silent_world\<lparr>dialed := [''/tmp/discord-ipc-0'', ''/tmp/discord-ipc-1'',
                               ''/tmp/discord-ipc-2'', ''/tmp/discord-ipc-3'']\<rparr>,
      \<lparr>clientID = ''1234'',
       conn = Some \<lparr>inbound = [], wr_left = None,
                    written = [[0, 0, 0, 0, 5, 0, 0, 0], [49, 49, 50, 51, 52]],
                    n_write = 2, n_read = 1, closed = False\<rparr>,
       logged = False\<rparr>,
      Some (HandshakeError (IOError EOF)))"
  by (rule Login_silent)

text \<open>
  Claim C9. \<^verbatim>\<open>Login\<close> on a session that is logged in returns success and changes
  neither the session nor the world. So after a \<^verbatim>\<open>Login\<close> that succeeded, a second
  \<^verbatim>\<open>Login\<close> does no socket I/O: the I/O of the two calls is that of the first, which
  is the dials up to the one successful connect, the two writes of the handshake frame
  (header, payload) and the two reads of the reply (header, payload).
\<close>

theorem Login_idempotent:
  "(logged c \<longrightarrow> Login enc w c = (w, c, None)) \<and>
   (Login enc w c = (w1, c1, None) \<longrightarrow> logged c1 \<and> Login enc w1 c1 = (w1, c1, None)) \<and>
   (\<not> logged c \<and> Login enc w c = (w1, c1, None) \<longrightarrow>
      (\<exists>k. conn c1 = Some k \<and> n_write k = 2 \<and> n_read k = 2 \<and>
         written k = [PutUint32 0 @ PutUint32 (of_nat (length
             (enc (handshake_json \<lparr>V = ''1'', ClientId = clientID c\<rparr>)))),
           enc (handshake_json \<lparr>V = ''1'', ClientId = clientID c\<rparr>)]) \<and>
      (\<exists>p. \<not> unbound w p \<and>
         dialed w1 = dialed w @ takeWhile (unbound w) (spec_probe_order w) @ [p]))"
proof (intro conjI impI)
  assume "logged c"
  then show "Login enc w c = (w, c, None)" by (simp add: Login_def)
next
  assume "Login enc w c = (w1, c1, None)"
  then show "logged c1"
    by (auto simp: Login_def Let_def split: prod.splits sum.splits option.splits if_splits)
  then show "Login enc w1 c1 = (w1, c1, None)" by (simp add: Login_def)
next
  assume a: "\<not> logged c \<and> Login enc w c = (w1, c1, None)"
  let ?hs = "enc (handshake_json \<lparr>V = ''1'', ClientId = clientID c\<rparr>)"
  from a obtain k c2 c3 reply where
    os: "openSocket w = (w1, Inr k)" and
    sd: "send (c\<lparr>conn := Some k\<rparr>) 0 ?hs = (c2, None)" and
    rc: "receive c2 = (c3, Inr reply)" and
    c1: "c1 = c3\<lparr>logged := True\<rparr>"
    by (auto simp: Login_def Let_def split: prod.splits sum.splits option.splits if_splits)
  from openSocket_fresh [OF os] have fresh: "n_write k = 0" "n_read k = 0" "written k = []"
    and dial: "\<exists>p. \<not> unbound w p \<and>
        dialed w1 = dialed w @ takeWhile (unbound w) (spec_probe_order w) @ [p]"
    by auto
  from send_ok [OF sd] obtain k2 where k2: "conn c2 = Some k2" "n_write k2 = 2" "n_read k2 = 0"
    "written k2 = [PutUint32 0 @ PutUint32 (of_nat (length ?hs)), ?hs]"
    using fresh by auto
  from receive_ok [OF rc k2(1)] obtain k3 where "conn c3 = Some k3" "n_read k3 = 2"
    "n_write k3 = 2" "written k3 = [PutUint32 0 @ PutUint32 (of_nat (length ?hs)), ?hs]"
    using k2 by auto
  then show "\<exists>k. conn c1 = Some k \<and> n_write k = 2 \<and> n_read k = 2 \<and>
         written k = [PutUint32 0 @ PutUint32 (of_nat (length ?hs)), ?hs]"
    using c1 by simp
  from dial show "\<exists>p. \<not> unbound w p \<and>
         dialed w1 = dialed w @ takeWhile (unbound w) (spec_probe_order w) @ [p]" .
qed


theorem Login_idempotent_witness:
  "Login enc_stub slot3_world (NewClient ''1234'') =
     (slot3_world\<lparr>dialed := [''/tmp/discord-ipc-0'', ''/tmp/discord-ipc-1'',
                              ''/tmp/discord-ipc-2'', ''/tmp/discord-ipc-3'']\<rparr>,
      \<lparr>clientID = ''1234'',
       conn = Some \<lparr>inbound = [], wr_left = None,
                    written = [[0, 0, 0, 0, 5, 0, 0, 0], [49, 49, 50, 51, 52]],
                    n_write = 2, n_read = 2, closed = False\<rparr>,
       logged = True\<rparr>,
      None) \<and>
   Login enc_stub
     (slot3_world\<lparr>dialed := [''/tmp/discord-ipc-0'', ''/tmp/discord-ipc-1'',
                              ''/tmp/discord-ipc-2'', ''/tmp/discord-ipc-3'']\<rparr>)
     \<lparr>clientID = ''1234'',
      conn = Some \<lparr>inbound = [], wr_left = None,
                   written = [[0, 0, 0, 0, 5, 0, 0, 0], [49, 49, 50, 51, 52]],
                   n_write = 2, n_read = 2, closed = False\<rparr>,
      logged = True\<rparr> =
     (slot3_world\<lparr>dialed := [''/tmp/discord-ipc-0'', ''/tmp/discord-ipc-1'',
                              ''/tmp/discord-ipc-2'', ''/tmp/discord-ipc-3'']\<rparr>,
      \<lparr>clientID = ''1234'',
       conn = Some \<lparr>inbound = [], wr_left = None,
                    written = [[0, 0, 0, 0, 5, 0, 0, 0], [49, 49, 50, 51, 52]],
                    n_write = 2, n_read = 2, closed = False\<rparr>,
       logged = True\<rparr>,
      None)"
  using Login_slot3
    Login_idempotent [where c = "NewClient ''1234''" and enc = enc_stub and w = slot3_world
      and ?w1.0 = "slot3_world\<lparr>dialed := [''/tmp/discord-ipc-0'', ''/tmp/discord-ipc-1'',
                              ''/tmp/discord-ipc-2'', ''/tmp/discord-ipc-3'']\<rparr>"
      and ?c1.0 = "\<lparr>clientID = ''1234'',
       conn = Some \<lparr>inbound = [], wr_left = None,
                    written = [[0, 0, 0, 0, 5, 0, 0, 0], [49, 49, 50, 51, 52]],
                    n_write = 2, n_read = 2, closed = False\<rparr>,
       logged = True\<rparr>"]
  by simp

section \<open>Nonce\<close>

lemma hex_digit_hex: "unat d < 16 \<Longrightarrow> hex_digit d \<in> set ''0123456789abcdef''"
  unfolding hex_digit_def by (rule nth_mem) simp

lemma hi_nibble: "unat (drop_bit 4 (b :: byte)) < 16"
proof -
  have "unat b < 256" using unsigned_less [of b] by simp
  moreover have "unat (drop_bit 4 b) = unat b div 16"
    by (subst unat_drop_bit_eq) (simp add: drop_bit_eq_div)
  ultimately show ?thesis by simp
qed

lemma lo_nibble: "unat ((b :: byte) AND 0x0f) < 16"
proof -
  have "b AND 0x0f \<le> 0x0f" by (rule word_and_le1)
  then have "unat (b AND 0x0f) \<le> 15" by (simp add: word_le_nat_alt)
  then show ?thesis by simp
qed

lemma fmt_x_hex: "set (fmt_x bs) \<subseteq> set ''0123456789abcdef''"
  unfolding fmt_x_def using hex_digit_hex [OF hi_nibble] hex_digit_hex [OF lo_nibble]
  by (induction bs) auto

lemma length_fmt_x: "length (fmt_x bs) = 2 * length bs"
  by (induction bs) (simp_all add: fmt_x_def)

lemma version_nibble: "drop_bit 4 (((b :: byte) AND 0x0f) OR 0x40) = 4"
  apply (rule bit_word_eqI)
  apply (auto simp: bit_simps)
  done

lemma pair_at: "Suc i < length xs \<Longrightarrow> take 2 (drop i xs) = [xs ! i, xs ! Suc i]"
  by (simp add: take_Suc_conv_app_nth numeral_2_eq_2)

lemma fmt_x_pair:
  "fmt_x [a, b] = [hex_digit (drop_bit 4 a), hex_digit (a AND 0x0f),
                   hex_digit (drop_bit 4 b), hex_digit (b AND 0x0f)]"
  by (simp add: fmt_x_def)

lemma hex_digit_4: "hex_digit 4 = CHR ''4''"
  by (simp add: hex_digit_def)


lemma nonce_shape:
  "\<exists>g1 g2 g3 g4 g5.
     snd (nonce w) = g1 @ ''-'' @ g2 @ ''-4'' @ g3 @ ''-'' @ g4 @ ''-'' @ g5 \<and>
     length g1 = 8 \<and> length g2 = 4 \<and> length g3 = 3 \<and> length g4 = 4 \<and> length g5 = 12 \<and>
     set (g1 @ g2 @ g3 @ g4 @ g5) \<subseteq> set ''0123456789abcdef'' \<and>
     fst (nonce w) = w\<lparr>rand_pos := rand_pos w + 16\<rparr>"
proof -
  define buf0 where "buf0 = map (rand_src w) [rand_pos w ..< rand_pos w + 16]"
  define buf where "buf = buf0[6 := (buf0 ! 6 AND 0x0f) OR 0x40]"
  have len: "length buf = 16" by (simp add: buf_def buf0_def)
  have b6: "buf ! 6 = (buf0 ! 6 AND 0x0f) OR 0x40" by (simp add: buf_def buf0_def)
  have run: "nonce w = (w\<lparr>rand_pos := rand_pos w + 16\<rparr>,
      fmt_x (take 4 buf) @ ''-'' @ fmt_x (take 2 (drop 4 buf)) @ ''-'' @
      fmt_x (take 2 (drop 6 buf)) @ ''-'' @ fmt_x (take 2 (drop 8 buf)) @ ''-'' @
      fmt_x (drop 10 buf))"
    by (simp add: nonce_def rand_Read_def buf_def buf0_def Let_def)
  have third: "fmt_x (take 2 (drop 6 buf)) =
      CHR ''4'' # [hex_digit (buf ! 6 AND 0x0f), hex_digit (drop_bit 4 (buf ! 7)),
                   hex_digit (buf ! 7 AND 0x0f)]"
    using pair_at [of 6 buf] len
    by (simp add: fmt_x_pair b6 version_nibble hex_digit_4)
  let ?g3 = "[hex_digit (buf ! 6 AND 0x0f), hex_digit (drop_bit 4 (buf ! 7)),
              hex_digit (buf ! 7 AND 0x0f)]"
  have g3: "set ?g3 \<subseteq> set ''0123456789abcdef''"
    using hex_digit_hex [OF hi_nibble] hex_digit_hex [OF lo_nibble] by simp
  have all_hex: "set (fmt_x (take 4 buf) @ fmt_x (take 2 (drop 4 buf)) @ ?g3 @
      fmt_x (take 2 (drop 8 buf)) @ fmt_x (drop 10 buf)) \<subseteq> set ''0123456789abcdef''"
    unfolding set_append using g3 fmt_x_hex by blast
  have str: "snd (nonce w) = fmt_x (take 4 buf) @ ''-'' @ fmt_x (take 2 (drop 4 buf)) @ ''-4'' @
      ?g3 @ ''-'' @ fmt_x (take 2 (drop 8 buf)) @ ''-'' @ fmt_x (drop 10 buf)"
    by (simp add: run third)
  have lens: "length (fmt_x (take 4 buf)) = 8" "length (fmt_x (take 2 (drop 4 buf))) = 4"
    "length ?g3 = 3" "length (fmt_x (take 2 (drop 8 buf))) = 4"
    "length (fmt_x (drop 10 buf)) = 12"
    by (simp_all add: length_fmt_x len)
  have pos: "fst (nonce w) = w\<lparr>rand_pos := rand_pos w + 16\<rparr>"
    by (simp add: run)
  from str lens all_hex pos show ?thesis by blast
qed


lemma upt16:
  "[p..<p + 16] = [p, p+1, p+2, p+3, p+4, p+5, p+6, p+7, p+8, p+9, p+10, p+11, p+12, p+13, p+14, p+15]"
  by (simp add: upt_rec)

lemma nonce_exact:
  "nonce w =
     (w\<lparr>rand_pos := rand_pos w + 16\<rparr>,
      fmt_x [rand_src w (rand_pos w), rand_src w (rand_pos w + 1), rand_src w (rand_pos w + 2),
             rand_src w (rand_pos w + 3)] @ ''-'' @
      fmt_x [rand_src w (rand_pos w + 4), rand_src w (rand_pos w + 5)] @ ''-'' @
      fmt_x [(rand_src w (rand_pos w + 6) AND 0x0f) OR 0x40, rand_src w (rand_pos w + 7)] @ ''-'' @
      fmt_x [rand_src w (rand_pos w + 8), rand_src w (rand_pos w + 9)] @ ''-'' @
      fmt_x [rand_src w (rand_pos w + 10), rand_src w (rand_pos w + 11),
             rand_src w (rand_pos w + 12), rand_src w (rand_pos w + 13),
             rand_src w (rand_pos w + 14), rand_src w (rand_pos w + 15)])"
  unfolding nonce_def rand_Read_def upt16 by (simp add: Let_def)

lemma hex_digit_inj:
  assumes "unat a < 16" "unat b < 16" "hex_digit a = hex_digit b"
  shows "a = b"
proof -
  have "distinct ''0123456789abcdef''" by simp
  then have "unat a = unat b"
    using assms nth_eq_iff_index_eq [of "''0123456789abcdef''" "unat a" "unat b"]
    by (simp add: hex_digit_def)
  then show ?thesis by (simp add: word_unat_eq_iff)
qed

lemma byte_of_nibbles:
  fixes a b :: byte
  assumes "drop_bit 4 a = drop_bit 4 b" "a AND 0x0f = b AND 0x0f"
  shows "a = b"
proof (rule bit_word_eqI)
  fix n assume "n < LENGTH(8)"
  show "bit a n = bit b n"
  proof (cases "n < 4")
    case True
    have "bit (a AND 0x0f) n = bit (b AND 0x0f) n" using assms(2) by simp
    moreover have "bit (0x0f :: byte) n" using True
      by (auto simp: less_Suc_eq numeral_eq_Suc bit_numeral_simps bit_Suc)
    ultimately show ?thesis by (simp add: bit_and_iff)
  next
    case False
    have "bit (drop_bit 4 a) (n - 4) = bit (drop_bit 4 b) (n - 4)" using assms(1) by simp
    then show ?thesis using False by (simp add: bit_drop_bit_eq)
  qed
qed

lemma fmt_x_inj: "length xs = length ys \<Longrightarrow> fmt_x xs = fmt_x ys \<Longrightarrow> xs = ys"
proof (induction xs ys rule: list_induct2)
  case Nil
  then show ?case by simp
next
  case (Cons x xs y ys)
  from Cons.prems have d: "hex_digit (drop_bit 4 x) = hex_digit (drop_bit 4 y)"
      "hex_digit (x AND 0x0f) = hex_digit (y AND 0x0f)" and r: "fmt_x xs = fmt_x ys"
    by (simp_all add: fmt_x_def)
  have "drop_bit 4 x = drop_bit 4 y" using hex_digit_inj [OF hi_nibble hi_nibble d(1)] .
  moreover have "x AND 0x0f = y AND 0x0f" using hex_digit_inj [OF lo_nibble lo_nibble d(2)] .
  ultimately have "x = y" by (rule byte_of_nibbles)
  then show ?case using Cons.IH [OF r] by simp
qed

lemma version_byte_inj:
  fixes a b :: byte
  shows "((a AND 0x0f) OR 0x40 = (b AND 0x0f) OR 0x40) = (a AND 0x0f = b AND 0x0f)"
proof
  assume e: "(a AND 0x0f) OR 0x40 = (b AND 0x0f) OR 0x40"
  have m: "((x AND 0x0f) OR 0x40) AND 0x0f = x AND 0x0f" for x :: byte
  proof -
    have "((x AND 0x0f) OR 0x40) AND 0x0f = ((x AND 0x0f) AND 0x0f) OR (0x40 AND 0x0f)"
      by (rule bit.conj_disj_distrib2)
    also have "\<dots> = x AND 0x0f" by (simp add: and.assoc)
    finally show ?thesis .
  qed
  from e have "((a AND 0x0f) OR 0x40) AND 0x0f = ((b AND 0x0f) OR 0x40) AND 0x0f" by simp
  then show "a AND 0x0f = b AND 0x0f" by (simp only: m)
next
  assume "a AND 0x0f = b AND 0x0f"
  then show "(a AND 0x0f) OR 0x40 = (b AND 0x0f) OR 0x40" by simp
qed

lemma nonce_determines_bytes:
  "(snd (nonce w) = snd (nonce w')) =
     ([rand_src w (rand_pos w), rand_src w (rand_pos w + 1), rand_src w (rand_pos w + 2),
       rand_src w (rand_pos w + 3), rand_src w (rand_pos w + 4), rand_src w (rand_pos w + 5),
       rand_src w (rand_pos w + 6) AND 0x0f, rand_src w (rand_pos w + 7),
       rand_src w (rand_pos w + 8), rand_src w (rand_pos w + 9), rand_src w (rand_pos w + 10),
       rand_src w (rand_pos w + 11), rand_src w (rand_pos w + 12), rand_src w (rand_pos w + 13),
       rand_src w (rand_pos w + 14), rand_src w (rand_pos w + 15)] =
      [rand_src w' (rand_pos w'), rand_src w' (rand_pos w' + 1), rand_src w' (rand_pos w' + 2),
       rand_src w' (rand_pos w' + 3), rand_src w' (rand_pos w' + 4), rand_src w' (rand_pos w' + 5),
       rand_src w' (rand_pos w' + 6) AND 0x0f, rand_src w' (rand_pos w' + 7),
       rand_src w' (rand_pos w' + 8), rand_src w' (rand_pos w' + 9), rand_src w' (rand_pos w' + 10),
       rand_src w' (rand_pos w' + 11), rand_src w' (rand_pos w' + 12), rand_src w' (rand_pos w' + 13),
       rand_src w' (rand_pos w' + 14), rand_src w' (rand_pos w' + 15)])"
proof -
  have inj: "(fmt_x xs = fmt_x ys) = (xs = ys)" if "length xs = length ys" for xs ys
    using that fmt_x_inj by blast
  show ?thesis
    unfolding nonce_exact snd_conv
    by (simp add: length_fmt_x inj version_byte_inj)
qed

text \<open>
  Claim C8, as the code has it. Every nonce is the lower-case hexadecimal rendering of the
  next 16 bytes of the random source, two digits per byte, in groups of 4, 2, 2, 2 and 6
  bytes separated by hyphens, with byte 6 first rewritten so that its high digit (the
  first digit of the third group) is 4. Every other digit renders its random nibble
  unchanged, the first digit of the fourth group (the variant bits) included: two nonces
  are equal exactly when their random bytes agree everywhere but in the high nibble of
  byte 6. Each call advances the random source by 16 bytes, and each command frame
  (\<^verbatim>\<open>SetActivity\<close> and \<^verbatim>\<open>ClearActivity\<close> on a logged-in session, sent with opcode 1)
  carries the nonce of one such call.
\<close>

theorem nonce_format:
  "snd (nonce w) =
      fmt_x [rand_src w (rand_pos w), rand_src w (rand_pos w + 1), rand_src w (rand_pos w + 2),
             rand_src w (rand_pos w + 3)] @ ''-'' @
      fmt_x [rand_src w (rand_pos w + 4), rand_src w (rand_pos w + 5)] @ ''-'' @
      fmt_x [(rand_src w (rand_pos w + 6) AND 0x0f) OR 0x40, rand_src w (rand_pos w + 7)] @ ''-'' @
      fmt_x [rand_src w (rand_pos w + 8), rand_src w (rand_pos w + 9)] @ ''-'' @
      fmt_x [rand_src w (rand_pos w + 10), rand_src w (rand_pos w + 11),
             rand_src w (rand_pos w + 12), rand_src w (rand_pos w + 13),
             rand_src w (rand_pos w + 14), rand_src w (rand_pos w + 15)] \<and>
   (\<exists>g1 g2 g3 g4 g5.
      snd (nonce w) = g1 @ ''-'' @ g2 @ ''-4'' @ g3 @ ''-'' @ g4 @ ''-'' @ g5 \<and>
      length g1 = 8 \<and> length g2 = 4 \<and> length g3 = 3 \<and> length g4 = 4 \<and> length g5 = 12 \<and>
      set (g1 @ g2 @ g3 @ g4 @ g5) \<subseteq> set ''0123456789abcdef'') \<and>
   (snd (nonce w) = snd (nonce w')) =
     ([rand_src w (rand_pos w), rand_src w (rand_pos w + 1), rand_src w (rand_pos w + 2),
       rand_src w (rand_pos w + 3), rand_src w (rand_pos w + 4), rand_src w (rand_pos w + 5),
       rand_src w (rand_pos w + 6) AND 0x0f, rand_src w (rand_pos w + 7),
       rand_src w (rand_pos w + 8), rand_src w (rand_pos w + 9), rand_src w (rand_pos w + 10),
       rand_src w (rand_pos w + 11), rand_src w (rand_pos w + 12), rand_src w (rand_pos w + 13),
       rand_src w (rand_pos w + 14), rand_src w (rand_pos w + 15)] =
      [rand_src w' (rand_pos w'), rand_src w' (rand_pos w' + 1), rand_src w' (rand_pos w' + 2),
       rand_src w' (rand_pos w' + 3), rand_src w' (rand_pos w' + 4), rand_src w' (rand_pos w' + 5),
       rand_src w' (rand_pos w' + 6) AND 0x0f, rand_src w' (rand_pos w' + 7),
       rand_src w' (rand_pos w' + 8), rand_src w' (rand_pos w' + 9), rand_src w' (rand_pos w' + 10),
       rand_src w' (rand_pos w' + 11), rand_src w' (rand_pos w' + 12), rand_src w' (rand_pos w' + 13),
       rand_src w' (rand_pos w' + 14), rand_src w' (rand_pos w' + 15)]) \<and>
   fst (nonce w) = w\<lparr>rand_pos := rand_pos w + 16\<rparr> \<and>
   (logged c \<longrightarrow>
      ClearActivity enc w c =
        (fst (nonce w), send c 1 (enc (frame_json
           \<lparr>Cmd = ''SET_ACTIVITY'', Args = \<lparr>Pid = getpid w, ArgActivity = None\<rparr>,
            Nonce = snd (nonce w)\<rparr>)))) \<and>
   (logged c \<and> mapActivity a = Inr pa \<longrightarrow>
      SetActivity enc w c a =
        (fst (nonce w), send c 1 (enc (frame_json
           \<lparr>Cmd = ''SET_ACTIVITY'', Args = \<lparr>Pid = getpid w, ArgActivity = Some pa\<rparr>,
            Nonce = snd (nonce w)\<rparr>))))"
proof (intro conjI impI)
  show "snd (nonce w) =
      fmt_x [rand_src w (rand_pos w), rand_src w (rand_pos w + 1), rand_src w (rand_pos w + 2),
             rand_src w (rand_pos w + 3)] @ ''-'' @
      fmt_x [rand_src w (rand_pos w + 4), rand_src w (rand_pos w + 5)] @ ''-'' @
      fmt_x [(rand_src w (rand_pos w + 6) AND 0x0f) OR 0x40, rand_src w (rand_pos w + 7)] @ ''-'' @
      fmt_x [rand_src w (rand_pos w + 8), rand_src w (rand_pos w + 9)] @ ''-'' @
      fmt_x [rand_src w (rand_pos w + 10), rand_src w (rand_pos w + 11),
             rand_src w (rand_pos w + 12), rand_src w (rand_pos w + 13),
             rand_src w (rand_pos w + 14), rand_src w (rand_pos w + 15)]"
    unfolding nonce_exact snd_conv by (rule refl)
  from nonce_shape [of w]
  show "\<exists>g1 g2 g3 g4 g5.
      snd (nonce w) = g1 @ ''-'' @ g2 @ ''-4'' @ g3 @ ''-'' @ g4 @ ''-'' @ g5 \<and>
      length g1 = 8 \<and> length g2 = 4 \<and> length g3 = 3 \<and> length g4 = 4 \<and> length g5 = 12 \<and>
      set (g1 @ g2 @ g3 @ g4 @ g5) \<subseteq> set ''0123456789abcdef''"
    by blast
  show "(snd (nonce w) = snd (nonce w')) =
     ([rand_src w (rand_pos w), rand_src w (rand_pos w + 1), rand_src w (rand_pos w + 2),
       rand_src w (rand_pos w + 3), rand_src w (rand_pos w + 4), rand_src w (rand_pos w + 5),
       rand_src w (rand_pos w + 6) AND 0x0f, rand_src w (rand_pos w + 7),
       rand_src w (rand_pos w + 8), rand_src w (rand_pos w + 9), rand_src w (rand_pos w + 10),
       rand_src w (rand_pos w + 11), rand_src w (rand_pos w + 12), rand_src w (rand_pos w + 13),
       rand_src w (rand_pos w + 14), rand_src w (rand_pos w + 15)] =
      [rand_src w' (rand_pos w'), rand_src w' (rand_pos w' + 1), rand_src w' (rand_pos w' + 2),
       rand_src w' (rand_pos w' + 3), rand_src w' (rand_pos w' + 4), rand_src w' (rand_pos w' + 5),
       rand_src w' (rand_pos w' + 6) AND 0x0f, rand_src w' (rand_pos w' + 7),
       rand_src w' (rand_pos w' + 8), rand_src w' (rand_pos w' + 9), rand_src w' (rand_pos w' + 10),
       rand_src w' (rand_pos w' + 11), rand_src w' (rand_pos w' + 12), rand_src w' (rand_pos w' + 13),
       rand_src w' (rand_pos w' + 14), rand_src w' (rand_pos w' + 15)])"
    by (rule nonce_determines_bytes)
  from nonce_shape [of w] show "fst (nonce w) = w\<lparr>rand_pos := rand_pos w + 16\<rparr>"
    by blast
next
  assume "logged c"
  then show "ClearActivity enc w c =
        (fst (nonce w), send c 1 (enc (frame_json
           \<lparr>Cmd = ''SET_ACTIVITY'', Args = \<lparr>Pid = getpid w, ArgActivity = None\<rparr>,
            Nonce = snd (nonce w)\<rparr>)))"
    by (auto simp: ClearActivity_def Let_def split: prod.splits)
next
  assume "logged c \<and> mapActivity a = Inr pa"
  then show "SetActivity enc w c a =
        (fst (nonce w), send c 1 (enc (frame_json
           \<lparr>Cmd = ''SET_ACTIVITY'', Args = \<lparr>Pid = getpid w, ArgActivity = Some pa\<rparr>,
            Nonce = snd (nonce w)\<rparr>)))"
    by (auto simp: SetActivity_def Let_def split: prod.splits)
qed

theorem nonce_format_witness:
  "logged (session_on (endpoint [])\<lparr>logged := True\<rparr>) \<and>
   snd (nonce slot3_world) = ''03142536-4758-497a-8b9c-adbecfe0f102'' \<and>
   snd (nonce slot3_world) \<noteq> snd (nonce quiet_world) \<and>
   fst (ClearActivity enc_stub slot3_world (session_on (endpoint [])\<lparr>logged := True\<rparr>)) =
     slot3_world\<lparr>rand_pos := 16\<rparr>"
proof -
  have l: "logged (session_on (endpoint [])\<lparr>logged := True\<rparr>)" by simp
  note inst = nonce_format [where w = slot3_world and w' = quiet_world
      and c = "session_on (endpoint [])\<lparr>logged := True\<rparr>" and enc = enc_stub]
  from inst have "snd (nonce slot3_world) =
      fmt_x [rand_src slot3_world (rand_pos slot3_world),
             rand_src slot3_world (rand_pos slot3_world + 1),
             rand_src slot3_world (rand_pos slot3_world + 2),
             rand_src slot3_world (rand_pos slot3_world + 3)] @ ''-'' @
      fmt_x [rand_src slot3_world (rand_pos slot3_world + 4),
             rand_src slot3_world (rand_pos slot3_world + 5)] @ ''-'' @
      fmt_x [(rand_src slot3_world (rand_pos slot3_world + 6) AND 0x0f) OR 0x40,
             rand_src slot3_world (rand_pos slot3_world + 7)] @ ''-'' @
      fmt_x [rand_src slot3_world (rand_pos slot3_world + 8),
             rand_src slot3_world (rand_pos slot3_world + 9)] @ ''-'' @
      fmt_x [rand_src slot3_world (rand_pos slot3_world + 10),
             rand_src slot3_world (rand_pos slot3_world + 11),
             rand_src slot3_world (rand_pos slot3_world + 12),
             rand_src slot3_world (rand_pos slot3_world + 13),
             rand_src slot3_world (rand_pos slot3_world + 14),
             rand_src slot3_world (rand_pos slot3_world + 15)]"
    by blast
  then have run: "snd (nonce slot3_world) = ''03142536-4758-497a-8b9c-adbecfe0f102''"
    by (simp add: slot3_world_def fmt_x_def hex_digit_def)
  from inst have "(snd (nonce slot3_world) = snd (nonce quiet_world)) =
     ([rand_src slot3_world (rand_pos slot3_world), rand_src slot3_world (rand_pos slot3_world + 1),
       rand_src slot3_world (rand_pos slot3_world + 2), rand_src slot3_world (rand_pos slot3_world + 3),
       rand_src slot3_world (rand_pos slot3_world + 4), rand_src slot3_world (rand_pos slot3_world + 5),
       rand_src slot3_world (rand_pos slot3_world + 6) AND 0x0f,
       rand_src slot3_world (rand_pos slot3_world + 7), rand_src slot3_world (rand_pos slot3_world + 8),
       rand_src slot3_world (rand_pos slot3_world + 9), rand_src slot3_world (rand_pos slot3_world + 10),
       rand_src slot3_world (rand_pos slot3_world + 11), rand_src slot3_world (rand_pos slot3_world + 12),
       rand_src slot3_world (rand_pos slot3_world + 13), rand_src slot3_world (rand_pos slot3_world + 14),
       rand_src slot3_world (rand_pos slot3_world + 15)] =
      [rand_src quiet_world (rand_pos quiet_world), rand_src quiet_world (rand_pos quiet_world + 1),
       rand_src quiet_world (rand_pos quiet_world + 2), rand_src quiet_world (rand_pos quiet_world + 3),
       rand_src quiet_world (rand_pos quiet_world + 4), rand_src quiet_world (rand_pos quiet_world + 5),
       rand_src quiet_world (rand_pos quiet_world + 6) AND 0x0f,
       rand_src quiet_world (rand_pos quiet_world + 7), rand_src quiet_world (rand_pos quiet_world + 8),
       rand_src quiet_world (rand_pos quiet_world + 9), rand_src quiet_world (rand_pos quiet_world + 10),
       rand_src quiet_world (rand_pos quiet_world + 11), rand_src quiet_world (rand_pos quiet_world + 12),
       rand_src quiet_world (rand_pos quiet_world + 13), rand_src quiet_world (rand_pos quiet_world + 14),
       rand_src quiet_world (rand_pos quiet_world + 15)])"
    by blast
  then have diff: "snd (nonce slot3_world) \<noteq> snd (nonce quiet_world)"
    by (simp add: slot3_world_def quiet_world_def)
  from inst l
  have "fst (ClearActivity enc_stub slot3_world (session_on (endpoint [])\<lparr>logged := True\<rparr>)) =
      slot3_world\<lparr>rand_pos := rand_pos slot3_world + 16\<rparr>"
    by simp
  then show ?thesis using run diff l by (simp add: slot3_world_def)
qed

text \<open>
  With the random bytes all \<open>0x00\<close> the first digit of the fourth group is 0, with
  all \<open>0xff\<close> it is f: the variant bits are those of the random byte.
\<close>

theorem nonce_variant_not_fixed:
  "snd (nonce quiet_world) = ''00000000-0000-4000-0000-000000000000'' \<and>
   snd (nonce (quiet_world\<lparr>rand_src := (\<lambda>i. 0xff)\<rparr>)) = ''ffffffff-ffff-4fff-ffff-ffffffffffff''"
  by (simp add: nonce_def rand_Read_def quiet_world_def upt_rec fmt_x_def hex_digit_def Let_def)

end
